theory Spec2Isabelle
  imports Complex_Main
begin

section \<open>JavaScript values\<close>

text \<open>
  The validators receive untyped objects (\<^verbatim>\<open>streamerData: any\<close>), so every field is a
  JavaScript value. The model covers the primitive values; a missing field reads as
  \<open>Undefined\<close>. Finite numbers are exact rationals: comparisons, products and
  \<^verbatim>\<open>Math.round\<close> are computed without binary rounding and without a negative zero.
  The code computes in doubles, so a product of the model and the product of the code can
  differ in the last binary digit; where a result is then rounded to cents the two can
  differ by a cent (earnings 1.5 at multiplier 0.15: the exact 22.5 rounds to 23, the
  double 22.499999999999996 to 22). Statements on numbers are statements on the exact
  values unless the operands and results are exact in binary.
\<close>

datatype jsnum = Fin rat | NaN | PosInf | NegInf

datatype jsval = Undefined | Null | Boolean bool | Number jsnum | Str string

text \<open>
  Two conversions of the language are not fixed by the repository: reading a string as a
  number (\<^verbatim>\<open>"12" >= 10\<close>) and printing a number that is not a small integer. They are
  taken as a parameter, so a theorem stated for every host holds for the real one.
\<close>

record js_host =
  string_to_number :: "string \<Rightarrow> jsnum"
  number_to_string :: "rat \<Rightarrow> string"

fun truthy :: "jsval \<Rightarrow> bool" where
  "truthy Undefined = False"
| "truthy Null = False"
| "truthy (Boolean b) = b"
| "truthy (Number (Fin r)) = (r \<noteq> 0)"
| "truthy (Number NaN) = False"
| "truthy (Number PosInf) = True"
| "truthy (Number NegInf) = True"
| "truthy (Str s) = (s \<noteq> [])"

fun is_string :: "jsval \<Rightarrow> bool" where
  "is_string (Str s) = True"
| "is_string _ = False"

fun is_number :: "jsval \<Rightarrow> bool" where
  "is_number (Number n) = True"
| "is_number _ = False"

fun to_number :: "js_host \<Rightarrow> jsval \<Rightarrow> jsnum" where
  "to_number h Undefined = NaN"
| "to_number h Null = Fin 0"
| "to_number h (Boolean b) = Fin (if b then 1 else 0)"
| "to_number h (Number n) = n"
| "to_number h (Str s) = string_to_number h s"

text \<open>\<open>num_less a b\<close> is \<^verbatim>\<open>a < b\<close> on numbers; any comparison with NaN is false.\<close>

fun num_less :: "jsnum \<Rightarrow> jsnum \<Rightarrow> bool" where
  "num_less NaN b = False"
| "num_less a NaN = False"
| "num_less (Fin a) (Fin b) = (a < b)"
| "num_less NegInf b = (b \<noteq> NegInf)"
| "num_less a PosInf = (a \<noteq> PosInf)"
| "num_less a b = False"

definition num_ge :: "jsnum \<Rightarrow> jsnum \<Rightarrow> bool" where
  "num_ge a b = (a \<noteq> NaN \<and> b \<noteq> NaN \<and> \<not> num_less a b)"

text \<open>A value compared with a numeric literal: the value is converted to a number first.\<close>

definition js_lt :: "js_host \<Rightarrow> jsval \<Rightarrow> rat \<Rightarrow> bool" where
  "js_lt h v c = num_less (to_number h v) (Fin c)"

definition js_gt :: "js_host \<Rightarrow> jsval \<Rightarrow> rat \<Rightarrow> bool" where
  "js_gt h v c = num_less (Fin c) (to_number h v)"

definition js_ge :: "js_host \<Rightarrow> jsval \<Rightarrow> rat \<Rightarrow> bool" where
  "js_ge h v c = num_ge (to_number h v) (Fin c)"

fun num_sign :: "jsnum \<Rightarrow> int" where
  "num_sign (Fin r) = (if r < 0 then - 1 else if r = 0 then 0 else 1)"
| "num_sign PosInf = 1"
| "num_sign NegInf = - 1"
| "num_sign NaN = 0"

fun num_mul :: "jsnum \<Rightarrow> jsnum \<Rightarrow> jsnum" where
  "num_mul NaN b = NaN"
| "num_mul a NaN = NaN"
| "num_mul (Fin a) (Fin b) = Fin (a * b)"
| "num_mul a b =
     (let s = num_sign a * num_sign b
      in if s = 0 then NaN else if 0 < s then PosInf else NegInf)"

fun num_div :: "jsnum \<Rightarrow> jsnum \<Rightarrow> jsnum" where
  "num_div NaN b = NaN"
| "num_div a NaN = NaN"
| "num_div (Fin a) (Fin b) =
     (if b \<noteq> 0 then Fin (a / b)
      else if a = 0 then NaN else if 0 < a then PosInf else NegInf)"
| "num_div (Fin a) b = Fin 0"
| "num_div a (Fin b) = (if num_sign a * (if b < 0 then - 1 else 1) < 0 then NegInf else PosInf)"
| "num_div a b = NaN"

text \<open>\<^verbatim>\<open>Math.round\<close>: the nearest integer, a tie going up.\<close>

fun math_round :: "jsnum \<Rightarrow> jsnum" where
  "math_round (Fin r) = Fin (of_int \<lfloor>r + 1 / 2\<rfloor>)"
| "math_round n = n"

definition js_mul :: "js_host \<Rightarrow> jsval \<Rightarrow> jsval \<Rightarrow> jsval" where
  "js_mul h a b = Number (num_mul (to_number h a) (to_number h b))"

text \<open>
  Strict inequality \<^verbatim>\<open>a !== b\<close> on primitive values: values of different types differ,
  and NaN differs from itself.
\<close>

definition strict_neq :: "jsval \<Rightarrow> jsval \<Rightarrow> bool" where
  "strict_neq a b = (a \<noteq> b \<or> a = Number NaN)"

subsection \<open>Printing values\<close>

fun nat_to_string :: "nat \<Rightarrow> string" where
  "nat_to_string n =
     (if n < 10 then [char_of (48 + n)]
      else nat_to_string (n div 10) @ [char_of (48 + n mod 10)])"

declare nat_to_string.simps [simp del]

definition int_to_string :: "int \<Rightarrow> string" where
  "int_to_string i =
     (if i < 0 then CHR ''-'' # nat_to_string (nat (- i)) else nat_to_string (nat i))"

text \<open>
  An integer up to \<open>2^53\<close> in magnitude, which a double holds exactly, prints as its
  decimal digits; the text of any other finite number is the host's.
\<close>

definition num_to_string :: "js_host \<Rightarrow> rat \<Rightarrow> string" where
  "num_to_string h r =
     (if of_int \<lfloor>r\<rfloor> = r \<and> \<bar>r\<bar> \<le> 2 ^ 53 then int_to_string \<lfloor>r\<rfloor>
      else number_to_string h r)"

fun to_string :: "js_host \<Rightarrow> jsval \<Rightarrow> string" where
  "to_string h Undefined = ''undefined''"
| "to_string h Null = ''null''"
| "to_string h (Boolean b) = (if b then ''true'' else ''false'')"
| "to_string h (Number (Fin r)) = num_to_string h r"
| "to_string h (Number NaN) = ''NaN''"
| "to_string h (Number PosInf) = ''Infinity''"
| "to_string h (Number NegInf) = ''-Infinity''"
| "to_string h (Str s) = s"

text \<open>
  A host for closed evaluations. It reads a string of decimal digits as that integer and
  every other string as NaN, which is the language's reading of digit strings only; the
  evaluations below never pass it anything else.
\<close>

definition digits_value :: "string \<Rightarrow> nat" where
  "digits_value s = foldl (\<lambda>acc c. 10 * acc + (of_char c - 48)) 0 s"

definition decimal_host :: js_host where
  "decimal_host =
     \<lparr>string_to_number =
        (\<lambda>s. if s \<noteq> [] \<and> list_all (\<lambda>c. c \<in> set ''0123456789'') s
             then Fin (of_nat (digits_value s)) else NaN),
      number_to_string = (\<lambda>r. ''?'')\<rparr>"

section \<open>Streamer records and validation results\<close>

text \<open>
  The fields of a streamer object that the commission validators read. The spread
  \<^verbatim>\<open>{...streamerData, level}\<close> copies every field and replaces \<^verbatim>\<open>level\<close>.
\<close>

record streamer =
  streamer_id :: jsval
  level :: jsval
  earnings :: jsval
  country :: jsval

text \<open>
  Messages are constructors, one for each message text of the source (accents dropped):
  \<^item> \<open>IdInvalid\<close>: "ID de streamer es requerido y debe ser string valido" (route.ts);
  \<^item> \<open>EarningsNotNumber\<close>: "Earnings debe ser un numero valido";
  \<^item> \<open>EarningsNegative\<close>: "Earnings debe ser un numero positivo";
  \<^item> \<open>EarningsTooLarge\<close>: "Earnings excede el limite maximo permitido";
  \<^item> \<open>IdRequired\<close>: "ID de streamer es requerido y debe ser string"
    (commission-validator.js);
  \<^item> \<open>LevelRequired\<close>: "Nivel de streamer es requerido";
  \<^item> \<open>EarningsNotPositive\<close>: "Ganancias deben ser un numero positivo".
  The warnings carry the values their templates interpolate.
\<close>

datatype verror =
    IdInvalid | EarningsNotNumber | EarningsNegative | EarningsTooLarge
  | IdRequired | LevelRequired | EarningsNotPositive

datatype vwarning =
    LevelCorrected jsval jsval
  | LevelSuggested jsval jsval
  | CountryDefaulted

record validation =
  isValid :: bool
  errors :: "verror list"
  warnings :: "vwarning list"
  correctedData :: streamer

definition validLevels :: "jsval list" where
  "validLevels = [Number (Fin 1), Number (Fin 2), Number (Fin 3), Number (Fin 4), Number (Fin 5)]"

text \<open>
  \<^verbatim>\<open>levelMultipliers[level]\<close>: the property whose key is the text of \<open>level\<close>, or
  \<open>Undefined\<close>. (Names inherited from the object prototype are not modelled.)
\<close>

definition levelMultipliers :: "js_host \<Rightarrow> jsval \<Rightarrow> jsval" where
  "levelMultipliers h lv =
     (let k = to_string h lv
      in if k = ''1'' then Number (Fin (5 / 100))
         else if k = ''2'' then Number (Fin (10 / 100))
         else if k = ''3'' then Number (Fin (15 / 100))
         else if k = ''4'' then Number (Fin (20 / 100))
         else if k = ''5'' then Number (Fin (25 / 100))
         else Undefined)"

definition suggestLevelByEarnings :: "js_host \<Rightarrow> jsval \<Rightarrow> jsval" where
  "suggestLevelByEarnings h e =
     (if js_ge h e 10000 then Number (Fin 5)
      else if js_ge h e 5000 then Number (Fin 4)
      else if js_ge h e 2000 then Number (Fin 3)
      else if js_ge h e 500 then Number (Fin 2)
      else Number (Fin 1))"

section \<open>commission-validator.js\<close>

definition validateStreamerData_js :: "js_host \<Rightarrow> streamer \<Rightarrow> validation" where
  "validateStreamerData_js h s =
     (let e1 = (if \<not> truthy (streamer_id s) \<or> \<not> is_string (streamer_id s)
                then [IdRequired] else []);
          suggested = suggestLevelByEarnings h (earnings s);
          e2 = (if \<not> truthy (level s) then [LevelRequired] else []);
          corrected = (truthy (level s) \<and> level s \<notin> set validLevels);
          w2 = (if corrected then [LevelSuggested (level s) suggested] else []);
          lv = (if corrected then suggested else level s);
          e3 = (if \<not> truthy (earnings s) \<or> js_lt h (earnings s) 0
                then [EarningsNotPositive] else []);
          w4 = (if \<not> truthy (country s) then [CountryDefaulted] else []);
          co = (if \<not> truthy (country s) then Str ''Colombia'' else country s);
          es = e1 @ e2 @ e3
      in \<lparr>isValid = (length es = 0), errors = es, warnings = w2 @ w4,
          correctedData = s\<lparr>level := lv, country := co\<rparr>\<rparr>)"

text \<open>
  The two errors \<^verbatim>\<open>calculateCommission\<close> throws and catches itself:
  "Datos de streamer invalidos: " followed by the joined errors, and
  "Multiplicador no encontrado para nivel " followed by the level.
\<close>

datatype calc_error = InvalidData "verror list" | NoMultiplier jsval

text \<open>
  The object \<^verbatim>\<open>calculateCommission\<close> returns: on success \<^verbatim>\<open>commission\<close>, \<^verbatim>\<open>level\<close>,
  \<^verbatim>\<open>multiplier\<close>, \<^verbatim>\<open>baseEarnings\<close> and \<^verbatim>\<open>warnings\<close>; on failure the error and
  \<^verbatim>\<open>commission: 0\<close>.
\<close>

datatype calc_response =
    Succeeded jsval jsval jsval jsval "vwarning list"
  | Failed calc_error

fun success :: "calc_response \<Rightarrow> bool" where
  "success (Succeeded c l m b w) = True"
| "success (Failed e) = False"

fun commission :: "calc_response \<Rightarrow> jsval" where
  "commission (Succeeded c l m b w) = c"
| "commission (Failed e) = Number (Fin 0)"

definition calculateCommission_js :: "js_host \<Rightarrow> streamer \<Rightarrow> calc_response" where
  "calculateCommission_js h s =
     (let v = validateStreamerData_js h s
      in if \<not> isValid v then Failed (InvalidData (errors v))
         else let d = correctedData v;
                  baseEarnings = earnings d;
                  lv = level d;
                  multiplier = levelMultipliers h lv
              in if \<not> truthy multiplier then Failed (NoMultiplier lv)
                 else Succeeded (js_mul h baseEarnings multiplier) lv multiplier baseEarnings
                        (warnings v))"

definition zero_earner :: streamer where
  "zero_earner =
     \<lparr>streamer_id = Str ''s1'', level = Number (Fin 3), earnings = Number (Fin 0),
      country = Str ''Chile''\<rparr>"

definition eighth_earner :: streamer where
  "eighth_earner =
     \<lparr>streamer_id = Str ''s1'', level = Number (Fin 5), earnings = Number (Fin (1 / 8)),
      country = Str ''Chile''\<rparr>"

text \<open>Rounding to two decimals as the route's validator does it.\<close>

definition calculateCommissionAmount :: "jsnum \<Rightarrow> jsnum \<Rightarrow> jsnum" where
  "calculateCommissionAmount e m =
     num_div (math_round (num_mul (num_mul e m) (Fin 100))) (Fin 100)"

section \<open>The commission validator of the API route (route.ts)\<close>

text \<open>
  \<^verbatim>\<open>id.trim()\<close> removes white space at both ends. Strings are byte strings here, so the
  white space is the ASCII one: tab, line feed, vertical tab, form feed, carriage return
  and space.
\<close>

definition js_whitespace :: "char \<Rightarrow> bool" where
  "js_whitespace c = (of_char c \<in> set [9, 10, 11, 12, 13, 32 :: nat])"

definition js_trim :: "string \<Rightarrow> string" where
  "js_trim s = rev (dropWhile js_whitespace (rev (dropWhile js_whitespace s)))"

definition id_chars :: string where
  "id_chars = ''abcdefghijklmnopqrstuvwxyzABCDEFGHIJKLMNOPQRSTUVWXYZ0123456789_-''"

text \<open>
  \<^verbatim>\<open>typeof id === 'string' && id.trim().length > 0 && /^[a-zA-Z0-9_-]+$/.test(id)\<close>
\<close>

fun isValidId :: "jsval \<Rightarrow> bool" where
  "isValidId (Str s) =
     (0 < length (js_trim s) \<and> s \<noteq> [] \<and> list_all (\<lambda>c. c \<in> set id_chars) s)"
| "isValidId v = False"

definition validateAndCorrectLevel :: "js_host \<Rightarrow> jsval \<Rightarrow> jsval \<Rightarrow> jsval" where
  "validateAndCorrectLevel h lv e =
     (if truthy lv \<and> lv \<in> set validLevels then lv else suggestLevelByEarnings h e)"

record earnings_check =
  isValid_e :: bool
  errors_e :: "verror list"

fun earnings_errors :: "jsval \<Rightarrow> verror list" where
  "earnings_errors (Number n) =
     (if n = NaN then [EarningsNotNumber]
      else if num_less n (Fin 0) then [EarningsNegative]
      else if num_less (Fin 1000000) n then [EarningsTooLarge]
      else [])"
| "earnings_errors v = [EarningsNotNumber]"

definition validateEarnings :: "jsval \<Rightarrow> earnings_check" where
  "validateEarnings e =
     \<lparr>isValid_e = (length (earnings_errors e) = 0), errors_e = earnings_errors e\<rparr>"

text \<open>
  The validation cache: a \<^verbatim>\<open>Map\<close> from the key string to the result and the time it was
  stored, in milliseconds.
\<close>

record cache_entry =
  result :: validation
  timestamp :: int

type_synonym validation_cache = "string \<rightharpoonup> cache_entry"

definition cacheExpiry :: int where
  "cacheExpiry = 5 * 60 * 1000"

definition cacheKey :: "js_host \<Rightarrow> streamer \<Rightarrow> string" where
  "cacheKey h s =
     ''validation_'' @ to_string h (streamer_id s) @ ''_'' @ to_string h (earnings s)"

text \<open>The body of \<^verbatim>\<open>validateStreamerData\<close> after the cache lookup (lines 56 to 82).\<close>

definition validate_uncached :: "js_host \<Rightarrow> streamer \<Rightarrow> validation" where
  "validate_uncached h s =
     (let e1 = (if isValidId (streamer_id s) then [] else [IdInvalid]);
          lv = validateAndCorrectLevel h (level s) (earnings s);
          ws = (if strict_neq lv (level s) then [LevelCorrected (level s) lv] else []);
          ev = validateEarnings (earnings s);
          es = e1 @ (if isValid_e ev then [] else errors_e ev)
      in \<lparr>isValid = (length es = 0), errors = es, warnings = ws,
          correctedData = s\<lparr>level := lv\<rparr>\<rparr>)"

text \<open>
  \<^verbatim>\<open>validateStreamerData\<close> with the cache passed in and out. \<open>now\<close> is the clock when the
  cached entry is checked, \<open>now'\<close> the clock when the new entry is stored.
\<close>

definition validateStreamerData ::
  "js_host \<Rightarrow> int \<Rightarrow> int \<Rightarrow> streamer \<Rightarrow> validation_cache \<Rightarrow> validation \<times> validation_cache"
where
  "validateStreamerData h now now' s c =
     (let stored = (validate_uncached h s,
                    c(cacheKey h s \<mapsto> \<lparr>result = validate_uncached h s, timestamp = now'\<rparr>))
      in case c (cacheKey h s) of
           None \<Rightarrow> stored
         | Some cached \<Rightarrow>
             if now - timestamp cached < cacheExpiry then (result cached, c) else stored)"

definition clearExpiredCache :: "int \<Rightarrow> validation_cache \<Rightarrow> validation_cache" where
  "clearExpiredCache now c =
     (\<lambda>k. case c k of
            None \<Rightarrow> None
          | Some v \<Rightarrow> if now - timestamp v > cacheExpiry then None else Some v)"

definition calculateCommission ::
  "js_host \<Rightarrow> int \<Rightarrow> int \<Rightarrow> streamer \<Rightarrow> validation_cache \<Rightarrow> calc_response \<times> validation_cache"
where
  "calculateCommission h now now' s c =
     (let (v, c') = validateStreamerData h now now' s c
      in if \<not> isValid v then (Failed (InvalidData (errors v)), c')
         else let d = correctedData v;
                  multiplier = levelMultipliers h (level d);
                  amount = calculateCommissionAmount (to_number h (earnings d))
                             (to_number h multiplier)
              in (Succeeded (Number amount) (level d) multiplier (earnings d) (warnings v), c'))"

text \<open>
  The calls one validator instance receives, in order, each with the clock readings it
  makes. \<open>run_calls\<close> returns the validation results and the final cache.
\<close>

datatype validator_call = Validate int int streamer | ClearExpired int

fun run_calls ::
  "js_host \<Rightarrow> validator_call list \<Rightarrow> validation_cache \<Rightarrow> validation list \<times> validation_cache"
where
  "run_calls h [] c = ([], c)"
| "run_calls h (Validate now now' s # cs) c =
     (let (v, c1) = validateStreamerData h now now' s c;
          (vs, c2) = run_calls h cs c1
      in (v # vs, c2))"
| "run_calls h (ClearExpired now # cs) c = run_calls h cs (clearExpiredCache now c)"


text \<open>The test of line 52: an entry under the key of \<open>s\<close> that has not expired.\<close>

definition cache_hit :: "js_host \<Rightarrow> int \<Rightarrow> streamer \<Rightarrow> validation_cache \<Rightarrow> bool" where
  "cache_hit h now s c =
     (case c (cacheKey h s) of
        None \<Rightarrow> False
      | Some cached \<Rightarrow> now - timestamp cached < cacheExpiry)"

definition cache_all :: "(validation \<Rightarrow> bool) \<Rightarrow> validation_cache \<Rightarrow> bool" where
  "cache_all P c = (\<forall>k e. c k = Some e \<longrightarrow> P (result e))"

section \<open>The level check of streamer-validator.js\<close>

text \<open>
  \<^verbatim>\<open>StreamerValidator.validateStreamer\<close> of streamer-validator.js copies the input into
  \<^verbatim>\<open>correctedData\<close> and writes \<^verbatim>\<open>correctedData.level\<close> in one place only, lines 127 to
  131:
  \<^verbatim>\<open>if (!level || level < 1 || level > 5) { warnings.push(...); correctedData.level = 1 }\<close>.
  \<open>validateStreamer_level\<close> is that statement: it returns whether the warning is pushed
  and the level of \<^verbatim>\<open>correctedData\<close>.
\<close>

definition validateStreamer_level :: "js_host \<Rightarrow> jsval \<Rightarrow> bool \<times> jsval" where
  "validateStreamer_level h lv =
     (if \<not> truthy lv \<or> js_lt h lv 1 \<or> js_gt h lv 5 then (True, Number (Fin 1))
      else (False, lv))"

section \<open>What the specification says of a field\<close>

text \<open>A level that is an integer between 1 and 5.\<close>

fun level_1_to_5 :: "jsval \<Rightarrow> bool" where
  "level_1_to_5 (Number (Fin r)) = (of_int \<lfloor>r\<rfloor> = r \<and> 1 \<le> r \<and> r \<le> 5)"
| "level_1_to_5 v = False"

text \<open>Earnings that are not a number, are NaN, are negative or exceed 1,000,000.\<close>

fun earnings_malformed :: "jsval \<Rightarrow> bool" where
  "earnings_malformed (Number (Fin r)) = (r < 0 \<or> 1000000 < r)"
| "earnings_malformed (Number NaN) = True"
| "earnings_malformed (Number PosInf) = True"
| "earnings_malformed (Number NegInf) = True"
| "earnings_malformed v = True"

text \<open>
  An id that is missing, is not a string, is empty after trimming or has a character
  outside \<^verbatim>\<open>[a-zA-Z0-9_-]\<close>.
\<close>

fun id_malformed :: "jsval \<Rightarrow> bool" where
  "id_malformed (Str s) = (js_trim s = [] \<or> list_ex (\<lambda>c. c \<notin> set id_chars) s)"
| "id_malformed v = True"

section \<open>Inputs for closed evaluations\<close>

definition named_undefined :: streamer where
  "named_undefined =
     \<lparr>streamer_id = Str ''undefined'', level = Number (Fin 1), earnings = Number (Fin 100),
      country = Str ''Chile''\<rparr>"

definition no_id :: streamer where
  "no_id =
     \<lparr>streamer_id = Undefined, level = Number (Fin 1), earnings = Number (Fin 100),
      country = Str ''Chile''\<rparr>"

definition no_level :: streamer where
  "no_level =
     \<lparr>streamer_id = Str ''s1'', level = Undefined, earnings = Number (Fin 100),
      country = Str ''Chile''\<rparr>"

definition level_seven :: streamer where
  "level_seven =
     \<lparr>streamer_id = Str ''s1'', level = Number (Fin 7), earnings = Number (Fin 2500),
      country = Str ''Chile''\<rparr>"


section \<open>The error classifier of the API route\<close>

text \<open>
  An error object as the handlers see it: the message, which may be absent, and other
  properties. Messages are ASCII text; \<^verbatim>\<open>toLowerCase\<close> maps \<open>A\<close> to \<open>Z\<close> to \<open>a\<close> to \<open>z\<close>.
\<close>

record js_error =
  error_message :: "string option"
  error_name :: string
  error_code :: jsval

definition char_lower :: "char \<Rightarrow> char" where
  "char_lower c =
     (if 65 \<le> (of_char c :: nat) \<and> (of_char c :: nat) \<le> 90 then char_of ((of_char c :: nat) + 32)
      else c)"

definition toLowerCase :: "string \<Rightarrow> string" where
  "toLowerCase s = map char_lower s"

fun starts_with :: "string \<Rightarrow> string \<Rightarrow> bool" where
  "starts_with s [] = True"
| "starts_with [] (p # ps) = False"
| "starts_with (c # cs) (p # ps) = (c = p \<and> starts_with cs ps)"

text \<open>\<^verbatim>\<open>s.includes(sub)\<close>: \<open>sub\<close> occurs in \<open>s\<close>.\<close>

fun includes_str :: "string \<Rightarrow> string \<Rightarrow> bool" where
  "includes_str [] sub = (sub = [])"
| "includes_str (c # cs) sub = (starts_with (c # cs) sub \<or> includes_str cs sub)"

datatype error_type =
  NETWORK_ERROR | API_ERROR | VALIDATION_ERROR | AUTH_ERROR | UNKNOWN_ERROR

text \<open>
  \<^verbatim>\<open>const message = error.message?.toLowerCase() || ''\<close>: an absent message reads as the
  empty string.
\<close>

definition lowered_message :: "js_error \<Rightarrow> string" where
  "lowered_message e = (case error_message e of None \<Rightarrow> [] | Some m \<Rightarrow> toLowerCase m)"

definition classifyError :: "js_error \<Rightarrow> error_type" where
  "classifyError e =
     (let message = lowered_message e
      in if includes_str message ''network'' \<or> includes_str message ''connection''
            \<or> includes_str message ''timeout'' then NETWORK_ERROR
         else if includes_str message ''api'' \<or> includes_str message ''http''
            \<or> includes_str message ''500'' \<or> includes_str message ''404'' then API_ERROR
         else if includes_str message ''validation'' \<or> includes_str message ''invalid''
           then VALIDATION_ERROR
         else if includes_str message ''auth'' \<or> includes_str message ''unauthorized''
           then AUTH_ERROR
         else UNKNOWN_ERROR)"

text \<open>
  The specification's reading: a table of substrings and tags, searched in order on the
  lowercased text; the first row with a substring that occurs gives the tag.
\<close>

definition tag_table :: "(string list \<times> error_type) list" where
  "tag_table =
     [([''network'', ''connection'', ''timeout''], NETWORK_ERROR),
      ([''api'', ''http'', ''500'', ''404''], API_ERROR),
      ([''validation'', ''invalid''], VALIDATION_ERROR),
      ([''auth'', ''unauthorized''], AUTH_ERROR)]"

definition tag_of_text :: "string \<Rightarrow> error_type" where
  "tag_of_text m =
     (case find (\<lambda>row. list_ex (includes_str m) (fst row)) tag_table of
        None \<Rightarrow> UNKNOWN_ERROR
      | Some row \<Rightarrow> snd row)"

definition timeout_error :: js_error where
  "timeout_error =
     \<lparr>error_message = Some ''Request TIMEOUT: invalid API'', error_name = ''Error'',
      error_code = Undefined\<rparr>"

definition timeout_type_error :: js_error where
  "timeout_type_error =
     \<lparr>error_message = Some ''Request TIMEOUT: invalid API'', error_name = ''TypeError'',
      error_code = Number (Fin 404)\<rparr>"

section \<open>The /api/gas route\<close>

definition GAS_API_URL :: string where
  "GAS_API_URL =
     ''https://script.google.com/macros/s/AKfycbxOkgC_boHTVaAFAQQucJ-mXqRoeKMiPwN0W73wxSwLBU6xoi2-vWoc6KAGknS94HmR/exec''"

text \<open>
  \<^verbatim>\<open>new URL(request.url).searchParams\<close> is the list of the decoded name and value pairs of
  the query, in order; \<^verbatim>\<open>get\<close> returns the first value under a name, or null.
\<close>

type_synonym search_params = "(string \<times> string) list"

definition searchParams_get :: "search_params \<Rightarrow> string \<Rightarrow> string option" where
  "searchParams_get ps name = map_of ps name"

text \<open>\<^verbatim>\<open>searchParams.get('action') || d\<close>: null and the empty string give the default.\<close>

definition action_or :: "string \<Rightarrow> search_params \<Rightarrow> string" where
  "action_or d ps =
     (case searchParams_get ps ''action'' of
        None \<Rightarrow> d
      | Some a \<Rightarrow> if a = [] then d else a)"

text \<open>The URL both handlers fetch: \<^verbatim>\<open>`${GAS_API_URL}?action=${action}`\<close>.\<close>

definition gas_url :: "string \<Rightarrow> string" where
  "gas_url action = GAS_API_URL @ ''?action='' @ action"

definition GET_fetch_url :: "search_params \<Rightarrow> string" where
  "GET_fetch_url ps = gas_url (action_or ''health'' ps)"

definition POST_fetch_url :: "search_params \<Rightarrow> string" where
  "POST_fetch_url ps = gas_url (action_or ''updateStreamer'' ps)"

text \<open>
  A response of \<^verbatim>\<open>fetch\<close>: \<^verbatim>\<open>response.ok\<close>, \<^verbatim>\<open>response.status\<close> and what
  \<^verbatim>\<open>response.json()\<close> gives, a value or a thrown error.
\<close>

record 'd fetch_response =
  ok :: bool
  status :: nat
  json :: "js_error + 'd"

text \<open>\<^verbatim>\<open>new Error(`HTTP error! status: ${response.status}`)\<close>\<close>

definition http_error :: "nat \<Rightarrow> js_error" where
  "http_error st =
     \<lparr>error_message = Some (''HTTP error! status: '' @ nat_to_string st),
      error_name = ''Error'', error_code = Undefined\<rparr>"

text \<open>
  What a GET request meets outside the handler: the parsing of its URL; \<^verbatim>\<open>fetch\<close>, whose
  answer may differ from one call to the next; the cache and the network optimizer that
  wrap the fetching closure, taken as any function of the cache key and of the closure
  (they may return stored data, call the closure several times, or throw); and the error
  the logging and metrics calls after the fetch throw, if any.
\<close>

record 'd get_env =
  get_request_url :: "js_error + search_params"
  get_fetch :: "nat \<Rightarrow> string \<Rightarrow> js_error + 'd fetch_response"
  cached_with_optimization :: "string \<Rightarrow> (nat \<Rightarrow> js_error + 'd) \<Rightarrow> js_error + 'd"
  bookkeeping :: "js_error option"

text \<open>The closure of lines 496 to 509, at its \<open>k\<close>-th call.\<close>

definition gas_fetch :: "'d get_env \<Rightarrow> string \<Rightarrow> nat \<Rightarrow> js_error + 'd" where
  "gas_fetch env action k =
     (case get_fetch env k (gas_url action) of
        Inl e \<Rightarrow> Inl e
      | Inr r \<Rightarrow> if \<not> ok r then Inl (http_error (status r)) else json r)"

text \<open>The \<^verbatim>\<open>try\<close> block of \<^verbatim>\<open>GET\<close>: the data, or the error thrown in it.\<close>

definition GET_try :: "'d get_env \<Rightarrow> js_error + 'd" where
  "GET_try env =
     (case get_request_url env of
        Inl e \<Rightarrow> Inl e
      | Inr ps \<Rightarrow>
          (let action = action_or ''health'' ps
           in case cached_with_optimization env (''gas_api:'' @ action) (gas_fetch env action) of
                Inl e \<Rightarrow> Inl e
              | Inr d \<Rightarrow> (case bookkeeping env of Some e \<Rightarrow> Inl e | None \<Rightarrow> Inr d)))"

text \<open>
  The JSON body and the status of the handler's response (time stamps, the error id and
  the metrics are left out).
\<close>

record 'd api_response =
  resp_success :: bool
  resp_data :: "'d option"
  resp_error :: "string option"
  resp_errorType :: "error_type option"
  resp_status :: nat

definition GET :: "'d get_env \<Rightarrow> 'd api_response" where
  "GET env =
     (case GET_try env of
        Inr d \<Rightarrow>
          \<lparr>resp_success = True, resp_data = Some d, resp_error = None,
           resp_errorType = None, resp_status = 200\<rparr>
      | Inl e \<Rightarrow>
          \<lparr>resp_success = False, resp_data = None, resp_error = error_message e,
           resp_errorType = Some (classifyError e), resp_status = 500\<rparr>)"

record ('b, 'd) post_env =
  post_request_url :: "js_error + search_params"
  request_json :: "js_error + 'b"
  post_fetch :: "string \<Rightarrow> 'b \<Rightarrow> js_error + 'd fetch_response"

definition POST_try :: "('b, 'd) post_env \<Rightarrow> js_error + 'd" where
  "POST_try env =
     (case post_request_url env of
        Inl e \<Rightarrow> Inl e
      | Inr ps \<Rightarrow>
          (let action = action_or ''updateStreamer'' ps
           in case request_json env of
                Inl e \<Rightarrow> Inl e
              | Inr body \<Rightarrow>
                  (case post_fetch env (gas_url action) body of
                     Inl e \<Rightarrow> Inl e
                   | Inr r \<Rightarrow> if \<not> ok r then Inl (http_error (status r)) else json r)))"

definition POST :: "('b, 'd) post_env \<Rightarrow> 'd api_response" where
  "POST env =
     (case POST_try env of
        Inr d \<Rightarrow>
          \<lparr>resp_success = True, resp_data = Some d, resp_error = None,
           resp_errorType = None, resp_status = 200\<rparr>
      | Inl e \<Rightarrow>
          \<lparr>resp_success = False, resp_data = None, resp_error = error_message e,
           resp_errorType = None, resp_status = 500\<rparr>)"

subsection \<open>The query parameters on a URL\<close>

text \<open>
  The specification speaks of the parameters that appear on the outgoing URL: the text
  after the first \<open>?\<close> up to a \<open>#\<close>, cut at every \<open>&\<close>, each piece cut at its first \<open>=\<close>.
\<close>

fun split_on :: "char \<Rightarrow> string \<Rightarrow> string list" where
  "split_on d [] = [[]]"
| "split_on d (c # cs) =
     (if c = d then [] # split_on d cs
      else (case split_on d cs of [] \<Rightarrow> [[c]] | x # xs \<Rightarrow> (c # x) # xs))"

definition query_string :: "string \<Rightarrow> string" where
  "query_string url =
     takeWhile (\<lambda>c. c \<noteq> CHR ''#'') (drop 1 (dropWhile (\<lambda>c. c \<noteq> CHR ''?'') url))"

definition name_value :: "string \<Rightarrow> string \<times> string" where
  "name_value piece =
     (takeWhile (\<lambda>c. c \<noteq> CHR ''='') piece, drop 1 (dropWhile (\<lambda>c. c \<noteq> CHR ''='') piece))"

definition query_params :: "string \<Rightarrow> search_params" where
  "query_params url =
     map name_value (filter (\<lambda>piece. piece \<noteq> []) (split_on CHR ''&'' (query_string url)))"


subsection \<open>Requests for closed evaluations\<close>

definition streamers_query :: search_params where
  "streamers_query = [(''action'', ''getStreamers''), (''id'', ''42'')]"

definition network_down :: js_error where
  "network_down =
     \<lparr>error_message = Some ''fetch failed'', error_name = ''TypeError'',
      error_code = Undefined\<rparr>"

definition failing_get :: "string get_env" where
  "failing_get =
     \<lparr>get_request_url = Inr streamers_query,
      get_fetch = (\<lambda>k url. Inl network_down),
      cached_with_optimization = (\<lambda>key fetcher. fetcher 0),
      bookkeeping = None\<rparr>"

definition working_get :: "string get_env" where
  "working_get =
     \<lparr>get_request_url = Inr streamers_query,
      get_fetch = (\<lambda>k url. Inr \<lparr>ok = True, status = 200, json = Inr ''[]''\<rparr>),
      cached_with_optimization = (\<lambda>key fetcher. fetcher 0),
      bookkeeping = None\<rparr>"

definition refused_post :: "(string, string) post_env" where
  "refused_post =
     \<lparr>post_request_url = Inr streamers_query,
      request_json = Inr ''{}'',
      post_fetch = (\<lambda>url body. Inr \<lparr>ok = False, status = 503, json = Inr ''busy''\<rparr>)\<rparr>"

definition working_post :: "(string, string) post_env" where
  "working_post =
     \<lparr>post_request_url = Inr streamers_query,
      request_json = Inr ''{}'',
      post_fetch = (\<lambda>url body. Inr \<lparr>ok = True, status = 200, json = Inr ''done''\<rparr>)\<rparr>"

text \<open>
  A request whose decoded \<^verbatim>\<open>action\<close> value holds an \<open>&\<close> (sent as
  \<^verbatim>\<open>?action=x%26id%3D42\<close>), and two environments whose \<^verbatim>\<open>fetch\<close> tells in its answer
  whether the URL it is given carries \<^verbatim>\<open>id=42\<close>.
\<close>

definition ampersand_query :: search_params where
  "ampersand_query = [(''action'', ''x&id=42'')]"





section \<open>NetworkResilience.executeWithRetry (network-resilience.js)\<close>

datatype retry_strategy = Exponential | Linear | Fixed

text \<open>
  The configuration after \<^verbatim>\<open>{ ...this.config, ...options }\<close>. The threshold of the
  circuit breaker is read from \<^verbatim>\<open>this.config\<close> itself, where it is 5.
\<close>

record retry_config =
  maxRetries :: nat
  baseDelay :: rat
  maxDelay :: rat
  timeout :: rat
  circuitBreakerTimeout :: int
  retryStrategy :: retry_strategy

definition default_config :: retry_config where
  "default_config =
     \<lparr>maxRetries = 3, baseDelay = 1000, maxDelay = 10000, timeout = 30000,
      circuitBreakerTimeout = 60000, retryStrategy = Exponential\<rparr>"

definition circuitBreakerThreshold :: nat where
  "circuitBreakerThreshold = 5"

datatype breaker_state = CLOSED | OPEN | HALF_OPEN

record circuit_breaker =
  state :: breaker_state
  failureCount :: nat
  lastFailureTime :: "int option"

definition closed_breaker :: circuit_breaker where
  "closed_breaker = \<lparr>state = CLOSED, failureCount = 0, lastFailureTime = None\<rparr>"

text \<open>
  The errors caught inside the loop, each with a message:
  \<^item> \<open>CircuitOpen\<close>: "Circuit breaker esta ABIERTO - Servicio temporalmente no disponible";
  \<^item> \<open>OperationTimeout t\<close>: "Operacion timeout despues de \<open>t\<close>ms";
  \<^item> \<open>OperationError m\<close>: the error the operation rejects with, whose message is \<open>m\<close>.
  The errors \<^verbatim>\<open>executeWithRetry\<close> throws:
  \<^item> \<open>RetriesExhausted n e\<close>: "Operacion fallo despues de \<open>n\<close> intentos. Ultimo error: "
    followed by the message of \<open>e\<close>;
  \<^item> \<open>NoLastError\<close>: the TypeError of reading \<^verbatim>\<open>lastError.message\<close> when no attempt was
    made.
\<close>

datatype attempt_error = CircuitOpen | OperationTimeout rat | OperationError string

datatype retry_failure = RetriesExhausted nat attempt_error | NoLastError

text \<open>
  What \<^verbatim>\<open>executeWithTimeout(operation, timeout)\<close> settles to: the operation's value, its
  rejection, or the rejection of the timer.
\<close>

datatype 'a outcome = Resolved 'a | Rejected string | TimedOut

text \<open>
  The world of one call, by attempt number: what the operation does when it is invoked in
  that attempt, the clock when the breaker is checked, the clock when a failure is
  recorded, and the value of \<^verbatim>\<open>Math.random()\<close> for the delay.
\<close>

record 'a retry_env =
  operation :: "nat \<Rightarrow> 'a outcome"
  breaker_clock :: "nat \<Rightarrow> int"
  failure_clock :: "nat \<Rightarrow> int"
  random :: "nat \<Rightarrow> rat"

text \<open>What a call does, in order: it invokes the operation, is refused by the open
  breaker without invoking it, or sleeps.\<close>

datatype event = Invoked nat | Refused nat | Slept rat

definition exponentialBackoff :: "nat \<Rightarrow> retry_config \<Rightarrow> rat \<Rightarrow> rat" where
  "exponentialBackoff attempt cfg rnd =
     min (baseDelay cfg * 2 ^ (attempt - 1)) (maxDelay cfg) + rnd * 1000"

definition linearBackoff :: "nat \<Rightarrow> retry_config \<Rightarrow> rat" where
  "linearBackoff attempt cfg = min (baseDelay cfg * of_nat attempt) (maxDelay cfg)"

definition fixedDelay :: "nat \<Rightarrow> retry_config \<Rightarrow> rat" where
  "fixedDelay attempt cfg = baseDelay cfg"

definition calculateDelay :: "nat \<Rightarrow> retry_config \<Rightarrow> rat \<Rightarrow> rat" where
  "calculateDelay attempt cfg rnd =
     (case retryStrategy cfg of
        Exponential \<Rightarrow> exponentialBackoff attempt cfg rnd
      | Linear \<Rightarrow> linearBackoff attempt cfg
      | Fixed \<Rightarrow> fixedDelay attempt cfg)"

definition updateCircuitBreaker :: "int \<Rightarrow> circuit_breaker \<Rightarrow> circuit_breaker" where
  "updateCircuitBreaker now cb =
     \<lparr>state = (if circuitBreakerThreshold \<le> Suc (failureCount cb) then OPEN else state cb),
      failureCount = Suc (failureCount cb),
      lastFailureTime = Some now\<rparr>"

definition resetCircuitBreaker :: "circuit_breaker \<Rightarrow> circuit_breaker" where
  "resetCircuitBreaker cb = \<lparr>state = CLOSED, failureCount = 0, lastFailureTime = None\<rparr>"

text \<open>
  The \<^verbatim>\<open>try\<close> block of one attempt: the value or the caught error, the breaker and the
  events. \<^verbatim>\<open>Date.now() - null\<close> is \<^verbatim>\<open>Date.now()\<close>.
\<close>

definition try_attempt ::
  "retry_config \<Rightarrow> 'a retry_env \<Rightarrow> nat \<Rightarrow> circuit_breaker
     \<Rightarrow> (attempt_error + 'a) \<times> circuit_breaker \<times> event list"
where
  "try_attempt cfg env attempt cb =
     (let elapsed = breaker_clock env attempt
                      - (case lastFailureTime cb of None \<Rightarrow> 0 | Some t \<Rightarrow> t);
          refused = (state cb = OPEN \<and> elapsed \<le> circuitBreakerTimeout cfg);
          cb1 = (if state cb = OPEN then cb\<lparr>state := HALF_OPEN\<rparr> else cb)
      in if refused then (Inl CircuitOpen, cb, [Refused attempt])
         else (case operation env attempt of
                 Resolved v \<Rightarrow> (Inr v, resetCircuitBreaker cb1, [Invoked attempt])
               | Rejected m \<Rightarrow> (Inl (OperationError m), cb1, [Invoked attempt])
               | TimedOut \<Rightarrow> (Inl (OperationTimeout (timeout cfg)), cb1, [Invoked attempt])))"

text \<open>
  The loop \<^verbatim>\<open>for (let attempt = 1; attempt <= config.maxRetries; attempt++)\<close> from a
  given attempt on, and the \<^verbatim>\<open>throw\<close> after it.
\<close>

function retry_from ::
  "retry_config \<Rightarrow> 'a retry_env \<Rightarrow> nat \<Rightarrow> circuit_breaker \<Rightarrow> attempt_error option
     \<Rightarrow> (retry_failure + 'a) \<times> circuit_breaker \<times> event list"
where
  "retry_from cfg env attempt cb lastError =
     (if attempt \<le> maxRetries cfg then
        (case try_attempt cfg env attempt cb of
           (Inr v, cb', evs) \<Rightarrow> (Inr v, cb', evs)
         | (Inl err, cb', evs) \<Rightarrow>
             (let cb'' = updateCircuitBreaker (failure_clock env attempt) cb';
                  sleep = (if attempt < maxRetries cfg
                           then [Slept (calculateDelay attempt cfg (random env attempt))]
                           else [])
              in case retry_from cfg env (Suc attempt) cb'' (Some err) of
                   (res, cbf, rest) \<Rightarrow> (res, cbf, evs @ sleep @ rest)))
      else (case lastError of
              None \<Rightarrow> (Inl NoLastError, cb, [])
            | Some err \<Rightarrow> (Inl (RetriesExhausted (maxRetries cfg) err), cb, [])))"
  by pat_completeness auto
termination
  by (relation "measure (\<lambda>(cfg, env, attempt, cb, lastError). Suc (maxRetries cfg) - attempt)") auto

declare retry_from.simps [simp del]

definition executeWithRetry ::
  "retry_config \<Rightarrow> 'a retry_env \<Rightarrow> circuit_breaker
     \<Rightarrow> (retry_failure + 'a) \<times> circuit_breaker \<times> event list"
where
  "executeWithRetry cfg env cb = retry_from cfg env 1 cb None"

fun is_invoked :: "event \<Rightarrow> bool" where
  "is_invoked (Invoked k) = True"
| "is_invoked e = False"

fun is_attempt :: "event \<Rightarrow> bool" where
  "is_attempt (Slept d) = False"
| "is_attempt e = True"

fun is_resolved :: "'a outcome \<Rightarrow> bool" where
  "is_resolved (Resolved v) = True"
| "is_resolved x = False"

text \<open>The error caught in the attempt an event stands for, if it failed.\<close>

fun attempt_failure :: "retry_config \<Rightarrow> 'a retry_env \<Rightarrow> event \<Rightarrow> attempt_error option" where
  "attempt_failure cfg env (Invoked k) =
     (case operation env k of
        Resolved v \<Rightarrow> None
      | Rejected m \<Rightarrow> Some (OperationError m)
      | TimedOut \<Rightarrow> Some (OperationTimeout (timeout cfg)))"
| "attempt_failure cfg env (Refused k) = Some CircuitOpen"
| "attempt_failure cfg env (Slept d) = None"

text \<open>An attempt that is not the last event is followed by a sleep.\<close>

fun sleeps_between :: "event list \<Rightarrow> bool" where
  "sleeps_between (a # b # es) = ((is_attempt a \<longrightarrow> \<not> is_attempt b) \<and> sleeps_between (b # es))"
| "sleeps_between es = True"

subsection \<open>Operations for closed evaluations\<close>

definition third_time_lucky :: "string retry_env" where
  "third_time_lucky =
     \<lparr>operation = (\<lambda>k. if k < 3 then Rejected ''network timeout'' else Resolved ''data''),
      breaker_clock = (\<lambda>k. 0), failure_clock = (\<lambda>k. 0), random = (\<lambda>k. 0)\<rparr>"

definition always_down :: "string retry_env" where
  "always_down =
     \<lparr>operation = (\<lambda>k. Rejected ''network timeout''),
      breaker_clock = (\<lambda>k. 0), failure_clock = (\<lambda>k. 0), random = (\<lambda>k. 0)\<rparr>"

text \<open>The sleep after a failed attempt that is not the last one.\<close>

definition sleep_after :: "retry_config \<Rightarrow> 'a retry_env \<Rightarrow> nat \<Rightarrow> event list" where
  "sleep_after cfg env a =
     (if a < maxRetries cfg then [Slept (calculateDelay a cfg (random env a))] else [])"

section \<open>The commission service and its Firestore calls\<close>

text \<open>
  Objects are maps from property names to values; a property that is absent reads as
  \<open>Undefined\<close>. The spread \<^verbatim>\<open>{ ...a, p: v }\<close> is \<open>a(p \<mapsto> v)\<close>, and \<^verbatim>\<open>{ p: v, ...a }\<close> is
  \<open>[p \<mapsto> v] ++ a\<close>.
\<close>

type_synonym js_object = "string \<rightharpoonup> jsval"

definition field :: "js_object \<Rightarrow> string \<Rightarrow> jsval" where
  "field obj name = (case obj name of None \<Rightarrow> Undefined | Some v \<Rightarrow> v)"

definition js_or :: "jsval \<Rightarrow> jsval \<Rightarrow> jsval" where
  "js_or a b = (if truthy a then a else b)"

fun num_sub :: "jsnum \<Rightarrow> jsnum \<Rightarrow> jsnum" where
  "num_sub NaN b = NaN"
| "num_sub a NaN = NaN"
| "num_sub (Fin a) (Fin b) = Fin (a - b)"
| "num_sub (Fin a) PosInf = NegInf"
| "num_sub (Fin a) NegInf = PosInf"
| "num_sub PosInf PosInf = NaN"
| "num_sub NegInf NegInf = NaN"
| "num_sub PosInf b = PosInf"
| "num_sub NegInf b = NegInf"

definition js_sub :: "js_host \<Rightarrow> jsval \<Rightarrow> jsval \<Rightarrow> jsval" where
  "js_sub h a b = Number (num_sub (to_number h a) (to_number h b))"

text \<open>
  \<^verbatim>\<open>this.commissionRates[level]\<close>, by the text of the level. (Names inherited from the
  object prototype are not modelled.)
\<close>

definition commissionRates :: "js_host \<Rightarrow> jsval \<Rightarrow> jsval" where
  "commissionRates h lv =
     (let k = to_string h lv
      in if k = ''1'' then Number (Fin (15 / 100))
         else if k = ''2'' then Number (Fin (20 / 100))
         else if k = ''3'' then Number (Fin (25 / 100))
         else if k = ''4'' then Number (Fin (30 / 100))
         else if k = ''5'' then Number (Fin (35 / 100))
         else Undefined)"

text \<open>
  The readings of the clock: \<^verbatim>\<open>Date.now()\<close> in milliseconds and the text of
  \<^verbatim>\<open>new Date().toISOString()\<close>. A \<^verbatim>\<open>Date\<close> object stored in a document is represented by
  its milliseconds.
\<close>

record clock =
  now_ms :: int
  now_iso :: string

text \<open>
  The errors of the service: "Streamer \<open>id\<close> no encontrado", an error thrown by a Firestore
  call, and the TypeError of calling a method the Firestore service does not have.
\<close>

datatype service_error = StreamerNotFound jsval | FirestoreError js_error | NotAFunction string

text \<open>
  \<^verbatim>\<open>CommissionService.calculateCommission\<close>. \<open>getStreamerById\<close> is what the awaited
  Firestore call gives: a thrown error, a falsy value (\<open>None\<close>) or an object.
\<close>

definition CommissionService_calculateCommission ::
  "js_host \<Rightarrow> clock \<Rightarrow> (jsval \<Rightarrow> js_error + js_object option) \<Rightarrow> jsval \<Rightarrow> jsval \<Rightarrow> jsval
     \<Rightarrow> service_error + js_object"
where
  "CommissionService_calculateCommission h clk getStreamerById streamerId amount app =
     (case getStreamerById streamerId of
        Inl e \<Rightarrow> Inl (FirestoreError e)
      | Inr None \<Rightarrow> Inl (StreamerNotFound streamerId)
      | Inr (Some streamer) \<Rightarrow>
          (let lv = js_or (field streamer ''level'') (Number (Fin 1));
               commissionRate = js_or (commissionRates h lv) (Number (Fin (15 / 100)));
               commissionAmount = js_mul h amount commissionRate;
               netAmount = js_sub h amount commissionAmount
           in Inr (map_of
                [(''id'', Str (''COMM_'' @ to_string h (Number (Fin (of_int (now_ms clk))))
                              @ ''_'' @ to_string h streamerId)),
                 (''streamerId'', streamerId),
                 (''streamerName'', field streamer ''name''),
                 (''agency'', js_or (field streamer ''agency'') (Str ''luxeryprime'')),
                 (''app'', app),
                 (''level'', lv),
                 (''baseAmount'', amount),
                 (''commissionRate'', commissionRate),
                 (''commissionAmount'', commissionAmount),
                 (''netAmount'', netAmount),
                 (''status'', Str ''pending''),
                 (''createdAt'', Str (now_iso clk)),
                 (''updatedAt'', Str (now_iso clk))])))"

text \<open>
  \<^verbatim>\<open>FirestoreService.createCommission\<close> hands \<^verbatim>\<open>addDoc\<close> the data with the time stamps and
  \<^verbatim>\<open>status: 'pending'\<close> written over it, and returns
  \<^verbatim>\<open>{ success: true, id, data: commissionData }\<close>, the data as the caller gave it, or
  \<^verbatim>\<open>{ success: false, error: error.message }\<close> when \<^verbatim>\<open>addDoc\<close> throws. \<open>addDoc\<close> gives the
  new id or the thrown error. The function returns the response and the documents added
  to the collection.
\<close>

definition commission_document :: "clock \<Rightarrow> js_object \<Rightarrow> js_object" where
  "commission_document clk commissionData =
     commissionData
       (''created_at'' \<mapsto> Number (Fin (of_int (now_ms clk))),
        ''updated_at'' \<mapsto> Number (Fin (of_int (now_ms clk))),
        ''status'' \<mapsto> Str ''pending'')"

datatype create_response = CreateSucceeded string js_object | CreateFailed "string option"

definition firestore_createCommission ::
  "clock \<Rightarrow> (js_object \<Rightarrow> js_error + string) \<Rightarrow> js_object
     \<Rightarrow> create_response \<times> js_object list"
where
  "firestore_createCommission clk addDoc commissionData =
     (case addDoc (commission_document clk commissionData) of
        Inl e \<Rightarrow> (CreateFailed (error_message e), [])
      | Inr new_id \<Rightarrow>
          (CreateSucceeded new_id commissionData, [commission_document clk commissionData]))"

text \<open>
  \<^verbatim>\<open>CommissionService.createCommission\<close> awaits the Firestore call, logs a notification and
  returns what the Firestore call returned.
\<close>

definition CommissionService_createCommission ::
  "clock \<Rightarrow> (js_object \<Rightarrow> js_error + string) \<Rightarrow> js_object
     \<Rightarrow> create_response \<times> js_object list"
where
  "CommissionService_createCommission clk addDoc commissionData =
     firestore_createCommission clk addDoc commissionData"

text \<open>
  \<^verbatim>\<open>CommissionService.updateCommissionStatus\<close> builds
  \<^verbatim>\<open>{ status: status, updatedAt: ..., ...additionalData }\<close> and calls
  \<^verbatim>\<open>this.firestore.updateCommission\<close> with it. The method is a parameter: \<open>None\<close> when
  the Firestore service has no such method, in which case the call throws a TypeError
  that the service logs and throws again.
\<close>

definition update_data :: "clock \<Rightarrow> jsval \<Rightarrow> js_object \<Rightarrow> js_object" where
  "update_data clk new_status additionalData =
     [''status'' \<mapsto> new_status, ''updatedAt'' \<mapsto> Str (now_iso clk)] ++ additionalData"

definition updateCommissionStatus ::
  "(jsval \<Rightarrow> js_object \<Rightarrow> js_error + js_object) option \<Rightarrow> clock \<Rightarrow> jsval \<Rightarrow> jsval
     \<Rightarrow> js_object \<Rightarrow> service_error + js_object"
where
  "updateCommissionStatus updateCommission clk commissionId new_status additionalData =
     (let updateData = update_data clk new_status additionalData
      in case updateCommission of
           None \<Rightarrow> Inl (NotAFunction ''updateCommission'')
         | Some update \<Rightarrow>
             (case update commissionId updateData of
                Inl e \<Rightarrow> Inl (FirestoreError e)
              | Inr updated \<Rightarrow> Inr updated))"

text \<open>
  The Firestore service of firestore.js defines \<^verbatim>\<open>createCommission\<close> and
  \<^verbatim>\<open>getCommissions\<close> and no \<^verbatim>\<open>updateCommission\<close>.
\<close>

definition firestore_updateCommission ::
  "(jsval \<Rightarrow> js_object \<Rightarrow> js_error + js_object) option" where
  "firestore_updateCommission = None"

text \<open>The statuses of the data model: pending, paid, failed.\<close>

definition commission_statuses :: "jsval list" where
  "commission_statuses = [Str ''pending'', Str ''paid'', Str ''failed'']"

subsection \<open>A streamer for closed evaluations\<close>

definition noon :: clock where
  "noon = \<lparr>now_ms = 1700000000000, now_iso = ''2023-11-14T22:13:20.000Z''\<rparr>"

definition found_streamer :: "jsval \<Rightarrow> js_error + js_object option" where
  "found_streamer sid =
     Inr (Some [''name'' \<mapsto> Str ''Ana'', ''level'' \<mapsto> Number (Fin 2)])"

definition approved_commission :: js_object where
  "approved_commission = [''streamerId'' \<mapsto> Str ''s1'', ''status'' \<mapsto> Str ''approved'']"

definition stored_as :: "js_object \<Rightarrow> js_error + string" where
  "stored_as d = Inr ''doc1''"

text \<open>An \<^verbatim>\<open>updateCommission\<close> that merges the update into the commission of that id.\<close>

definition merging_update :: "jsval \<Rightarrow> js_object \<Rightarrow> js_error + js_object" where
  "merging_update commissionId updateData =
     Inr ([''id'' \<mapsto> commissionId, ''status'' \<mapsto> Str ''pending''] ++ updateData)"

section \<open>Lemmas on the validators\<close>

lemma suggest_valid: "suggestLevelByEarnings h e \<in> set validLevels"
  by (simp add: suggestLevelByEarnings_def validLevels_def)

lemma correct_valid: "validateAndCorrectLevel h lv e \<in> set validLevels"
  by (simp add: validateAndCorrectLevel_def suggest_valid)

lemma uncached_level: "level (correctedData (validate_uncached h s)) \<in> set validLevels"
  by (simp add: validate_uncached_def Let_def correct_valid)

lemma uncached_isValid: "isValid (validate_uncached h s) = (errors (validate_uncached h s) = [])"
  by (simp add: validate_uncached_def Let_def)

lemma validate_keeps:
  assumes "\<And>s. P (validate_uncached h s)" "cache_all P c"
  shows "P (fst (validateStreamerData h t t' s c)) \<and> cache_all P (snd (validateStreamerData h t t' s c))"
  using assms
  by (auto simp: validateStreamerData_def cache_all_def Let_def split: option.splits)

lemma clear_keeps: "cache_all P c \<Longrightarrow> cache_all P (clearExpiredCache t c)"
  by (auto simp: clearExpiredCache_def cache_all_def split: option.splits if_splits)

lemma run_keeps:
  assumes "\<And>s. P (validate_uncached h s)" "cache_all P c"
  shows "list_all P (fst (run_calls h cs c)) \<and> cache_all P (snd (run_calls h cs c))"
  using assms(2)
proof (induction cs arbitrary: c)
  case Nil
  then show ?case by simp
next
  case (Cons a cs)
  show ?case
  proof (cases a)
    case (Validate t t' s)
    from validate_keeps[OF assms(1) Cons.prems, of t t' s]
    have 1: "P (fst (validateStreamerData h t t' s c))"
      and 2: "cache_all P (snd (validateStreamerData h t t' s c))" by auto
    from Cons.IH[OF 2] 1 show ?thesis
      by (simp add: Validate split_beta)
  next
    case (ClearExpired t)
    from Cons.IH[OF clear_keeps[OF Cons.prems]] show ?thesis
      by (simp add: ClearExpired)
  qed
qed

lemma cache_all_empty: "cache_all P Map.empty"
  by (simp add: cache_all_def)






lemma valid_iff_1_to_5: "v \<in> set validLevels \<longleftrightarrow> level_1_to_5 v"
proof (cases v)
  case (Number n)
  show ?thesis
  proof (cases n)
    case (Fin r)
    have "(of_int \<lfloor>r\<rfloor> = r \<and> 1 \<le> r \<and> r \<le> 5) \<longleftrightarrow> r \<in> {1, 2, 3, 4, 5}"
    proof
      assume a: "of_int \<lfloor>r\<rfloor> = r \<and> 1 \<le> r \<and> r \<le> 5"
      define i where "i = \<lfloor>r\<rfloor>"
      have r: "r = of_int i" unfolding i_def using a by (metis)
      with a have "1 \<le> i" "i \<le> 5" by auto
      then have "i \<in> {1, 2, 3, 4, 5}" by auto
      with r show "r \<in> {1, 2, 3, 4, 5}" by auto
    next
      assume "r \<in> {1, 2, 3, 4, 5}"
      then show "of_int \<lfloor>r\<rfloor> = r \<and> 1 \<le> r \<and> r \<le> 5" by auto
    qed
    then show ?thesis by (auto simp: Number Fin validLevels_def)
  qed (simp_all add: Number validLevels_def)
qed (simp_all add: validLevels_def)

lemma earnings_errors_iff: "earnings_errors e \<noteq> [] \<longleftrightarrow> earnings_malformed e"
proof (cases e)
  case (Number n)
  then show ?thesis by (cases n) auto
qed simp_all

lemma trim_nil: "js_trim [] = []" by (simp add: js_trim_def)

lemma isValidId_iff: "isValidId v \<longleftrightarrow> \<not> id_malformed v"
proof (cases v)
  case (Str s)
  have "s = [] \<Longrightarrow> js_trim s = []" by (simp add: js_trim_def)
  then show ?thesis
    by (auto simp: Str list_all_iff list_ex_iff)
qed simp_all

lemma earnings_errors_no_id: "IdInvalid \<notin> set (earnings_errors e)"
proof (cases e)
  case (Number n)
  then show ?thesis by (cases n) auto
qed simp_all

lemma uncached_id: "IdInvalid \<in> set (errors (validate_uncached h s)) \<longleftrightarrow> id_malformed (streamer_id s)"
  by (simp add: validate_uncached_def Let_def validateEarnings_def earnings_errors_no_id isValidId_iff)

lemma miss_uncached: "\<not> cache_hit h now s c \<Longrightarrow> fst (validateStreamerData h now now' s c) = validate_uncached h s"
  by (auto simp: cache_hit_def validateStreamerData_def Let_def split: option.splits)

subsection \<open>The route\<close>


lemma no_question_mark: "CHR ''?'' \<notin> set GAS_API_URL"
  by (simp add: GAS_API_URL_def)

lemma dropWhile_to_mark:
  "x \<notin> set pre \<Longrightarrow> dropWhile (\<lambda>c. c \<noteq> x) (pre @ x # rest) = x # rest"
  by (induction pre) auto

lemma takeWhile_all: "x \<notin> set s \<Longrightarrow> takeWhile (\<lambda>c. c \<noteq> x) s = s"
  by (induction s) auto





lemma starts_with_append: "starts_with (p @ r) p"
  by (induction p) auto

lemma GET_try_failing: "GET_try failing_get = Inl network_down"
  by (simp add: GET_try_def failing_get_def gas_fetch_def Let_def)

lemma GET_try_working: "GET_try working_get = Inr ''[]''"
  by (simp add: GET_try_def working_get_def gas_fetch_def Let_def)

lemma POST_try_refused: "POST_try refused_post = Inl (http_error 503)"
  by (simp add: POST_try_def refused_post_def Let_def)

lemma POST_try_working: "POST_try working_post = Inr ''done''"
  by (simp add: POST_try_def working_post_def Let_def)

lemma query_string_gas_url_no_hash:
  assumes "CHR ''#'' \<notin> set a"
  shows "query_string (gas_url a) = ''action='' @ a"
proof -
  have "gas_url a = GAS_API_URL @ CHR ''?'' # (''action='' @ a)"
    by (simp add: gas_url_def)
  then have "dropWhile (\<lambda>c. c \<noteq> CHR ''?'') (gas_url a) = CHR ''?'' # (''action='' @ a)"
    using dropWhile_to_mark [OF no_question_mark] by simp
  moreover have "CHR ''#'' \<notin> set (''action='' @ a)"
    using assms by simp
  ultimately show ?thesis
    using takeWhile_all [of "CHR ''#''" "''action='' @ a"]
    by (simp add: query_string_def)
qed









text \<open>
  The action value is inserted undecoded and unencoded: an \<open>&\<close> in it starts another
  parameter on the fetched URL.
\<close>

lemma unencoded_action_splits:
  "searchParams_get ampersand_query ''id'' = None
   \<and> query_params (GET_fetch_url ampersand_query) = [(''action'', ''x''), (''id'', ''42'')]
   \<and> query_params (POST_fetch_url ampersand_query) = [(''action'', ''x''), (''id'', ''42'')]"
proof -
  have a: "action_or d ampersand_query = ''x&id=42''" for d
    by (simp add: action_or_def searchParams_get_def ampersand_query_def)
  have "query_string (gas_url ''x&id=42'') = ''action=x&id=42''"
    using query_string_gas_url_no_hash [of "''x&id=42''"] by simp
  then have "query_params (gas_url ''x&id=42'') = [(''action'', ''x''), (''id'', ''42'')]"
    by (simp add: query_params_def name_value_def)
  moreover have "searchParams_get ampersand_query ''id'' = None"
    by (simp add: searchParams_get_def ampersand_query_def)
  ultimately show ?thesis
    by (simp add: GET_fetch_url_def POST_fetch_url_def a)
qed

subsection \<open>The retry loop\<close>

lemma try_attempt_cases:
  "(\<exists>v cb'. try_attempt cfg env a cb = (Inr v, cb', [Invoked a]) \<and> operation env a = Resolved v)
   \<or> (\<exists>err cb' ev. try_attempt cfg env a cb = (Inl err, cb', [ev])
        \<and> (ev = Invoked a \<or> ev = Refused a)
        \<and> attempt_failure cfg env ev = Some err
        \<and> (ev = Invoked a \<longrightarrow> \<not> is_resolved (operation env a)))"
  by (cases "operation env a") (auto simp: try_attempt_def Let_def)

lemma retry_from_done:
  "\<not> a \<le> maxRetries cfg \<Longrightarrow>
   retry_from cfg env a cb l =
     (case l of None \<Rightarrow> (Inl NoLastError, cb, [])
      | Some err \<Rightarrow> (Inl (RetriesExhausted (maxRetries cfg) err), cb, []))"
  by (subst retry_from.simps) simp

lemma retry_from_success:
  "a \<le> maxRetries cfg \<Longrightarrow> try_attempt cfg env a cb = (Inr v, cb', evs) \<Longrightarrow>
   retry_from cfg env a cb l = (Inr v, cb', evs)"
  by (subst retry_from.simps) simp

lemma retry_from_failure:
  "a \<le> maxRetries cfg \<Longrightarrow> try_attempt cfg env a cb = (Inl err, cb', evs) \<Longrightarrow>
   retry_from cfg env a cb l =
     (fst (retry_from cfg env (Suc a) (updateCircuitBreaker (failure_clock env a) cb') (Some err)),
      fst (snd (retry_from cfg env (Suc a) (updateCircuitBreaker (failure_clock env a) cb') (Some err))),
      evs @ sleep_after cfg env a
        @ snd (snd (retry_from cfg env (Suc a) (updateCircuitBreaker (failure_clock env a) cb') (Some err))))"
  by (subst retry_from.simps) (simp add: Let_def sleep_after_def split: prod.splits)

lemma retry_from_induct:
  assumes d: "\<And>a cb l. \<not> a \<le> maxRetries cfg \<Longrightarrow>
        P a l (case l of None \<Rightarrow> (Inl NoLastError, cb, [])
               | Some err \<Rightarrow> (Inl (RetriesExhausted (maxRetries cfg) err), cb, []))"
    and s: "\<And>a l v cb'. a \<le> maxRetries cfg \<Longrightarrow> operation env a = Resolved v \<Longrightarrow>
        P a l (Inr v, cb', [Invoked a])"
    and f: "\<And>a l err ev res cbf rest. a \<le> maxRetries cfg \<Longrightarrow>
        ev = Invoked a \<or> ev = Refused a \<Longrightarrow>
        attempt_failure cfg env ev = Some err \<Longrightarrow>
        (ev = Invoked a \<longrightarrow> \<not> is_resolved (operation env a)) \<Longrightarrow>
        P (Suc a) (Some err) (res, cbf, rest) \<Longrightarrow>
        P a l (res, cbf, [ev] @ sleep_after cfg env a @ rest)"
  shows "P a l (retry_from cfg env a cb l)"
proof (induction "Suc (maxRetries cfg) - a" arbitrary: a cb l)
  case 0
  then have "\<not> a \<le> maxRetries cfg" by simp
  then show ?case using d [of a l cb] by (simp add: retry_from_done)
next
  case (Suc n)
  then have le: "a \<le> maxRetries cfg" by simp
  consider (ok) v cb' where "try_attempt cfg env a cb = (Inr v, cb', [Invoked a])"
        "operation env a = Resolved v"
    | (fail) err cb' ev where "try_attempt cfg env a cb = (Inl err, cb', [ev])"
        "ev = Invoked a \<or> ev = Refused a" "attempt_failure cfg env ev = Some err"
        "ev = Invoked a \<longrightarrow> \<not> is_resolved (operation env a)"
    using try_attempt_cases [of cfg env a cb] by blast
  then show ?case
  proof cases
    case ok
    then show ?thesis using s [OF le, of v l cb'] le by (simp add: retry_from_success)
  next
    case fail
    let ?r = "retry_from cfg env (Suc a) (updateCircuitBreaker (failure_clock env a) cb') (Some err)"
    from Suc.hyps(2) have "n = Suc (maxRetries cfg) - Suc a" by simp
    from Suc.hyps(1) [OF this] have "P (Suc a) (Some err) ?r" .
    then have "P (Suc a) (Some err) (fst ?r, fst (snd ?r), snd (snd ?r))" by simp
    from f [OF le fail(2) fail(3) fail(4) this] show ?thesis
      by (simp add: retry_from_failure [OF le fail(1)])
  qed
qed

lemma sleeps_between_Slept: "sleeps_between (Slept d # rest) = sleeps_between rest"
  by (cases rest) auto

lemma retry_structure:
  "sleeps_between (snd (snd (retry_from cfg env a cb l)))
   \<and> (snd (snd (retry_from cfg env a cb l)) \<noteq> [] \<longrightarrow>
        is_attempt (hd (snd (snd (retry_from cfg env a cb l)))))
   \<and> (snd (snd (retry_from cfg env a cb l)) = [] \<longleftrightarrow> \<not> a \<le> maxRetries cfg)"
proof (rule retry_from_induct
    [where cfg = cfg and env = env and P = "\<lambda>a l r. sleeps_between (snd (snd r))
       \<and> (snd (snd r) \<noteq> [] \<longrightarrow> is_attempt (hd (snd (snd r))))
       \<and> (snd (snd r) = [] \<longleftrightarrow> \<not> a \<le> maxRetries cfg)"])
  fix a :: nat and cb :: circuit_breaker and l :: "attempt_error option"
  assume "\<not> a \<le> maxRetries cfg"
  then show "sleeps_between (snd (snd (case l of None \<Rightarrow> (Inl NoLastError, cb, [])
               | Some err \<Rightarrow> (Inl (RetriesExhausted (maxRetries cfg) err), cb, []))))
     \<and> (snd (snd (case l of None \<Rightarrow> (Inl NoLastError, cb, [])
               | Some err \<Rightarrow> (Inl (RetriesExhausted (maxRetries cfg) err), cb, []))) \<noteq> [] \<longrightarrow>
        is_attempt (hd (snd (snd (case l of None \<Rightarrow> (Inl NoLastError, cb, [])
               | Some err \<Rightarrow> (Inl (RetriesExhausted (maxRetries cfg) err), cb, []))))))
     \<and> (snd (snd (case l of None \<Rightarrow> (Inl NoLastError, cb, [])
               | Some err \<Rightarrow> (Inl (RetriesExhausted (maxRetries cfg) err), cb, []))) = []
          \<longleftrightarrow> \<not> a \<le> maxRetries cfg)"
    by (simp split: option.splits)
next
  fix a :: nat and v :: 'a and cb' :: circuit_breaker
  assume "a \<le> maxRetries cfg"
  then show "sleeps_between (snd (snd (Inr v, cb', [Invoked a])))
     \<and> (snd (snd (Inr v, cb', [Invoked a])) \<noteq> [] \<longrightarrow>
          is_attempt (hd (snd (snd (Inr v, cb', [Invoked a])))))
     \<and> (snd (snd (Inr v, cb', [Invoked a])) = [] \<longleftrightarrow> \<not> a \<le> maxRetries cfg)"
    by simp
next
  fix a :: nat and ev :: event and res :: "retry_failure + 'a" and cbf :: circuit_breaker
    and rest :: "event list"
  assume le: "a \<le> maxRetries cfg" and ev: "ev = Invoked a \<or> ev = Refused a"
    and ih: "sleeps_between (snd (snd (res, cbf, rest)))
       \<and> (snd (snd (res, cbf, rest)) \<noteq> [] \<longrightarrow> is_attempt (hd (snd (snd (res, cbf, rest)))))
       \<and> (snd (snd (res, cbf, rest)) = [] \<longleftrightarrow> \<not> Suc a \<le> maxRetries cfg)"
  from ev have at: "is_attempt ev" by auto
  show "sleeps_between (snd (snd (res, cbf, [ev] @ sleep_after cfg env a @ rest)))
     \<and> (snd (snd (res, cbf, [ev] @ sleep_after cfg env a @ rest)) \<noteq> [] \<longrightarrow>
          is_attempt (hd (snd (snd (res, cbf, [ev] @ sleep_after cfg env a @ rest)))))
     \<and> (snd (snd (res, cbf, [ev] @ sleep_after cfg env a @ rest)) = []
          \<longleftrightarrow> \<not> a \<le> maxRetries cfg)"
  proof (cases "a < maxRetries cfg")
    case True
    with ih at le show ?thesis
      by (simp add: sleep_after_def sleeps_between_Slept)
  next
    case False
    with le have "\<not> Suc a \<le> maxRetries cfg" by simp
    with ih have "rest = []" by simp
    with False at le show ?thesis by (simp add: sleep_after_def)
  qed
qed

lemma sleep_after_no_attempt:
  "filter is_invoked (sleep_after cfg env a) = []" "filter is_attempt (sleep_after cfg env a) = []"
  "Invoked j \<notin> set (sleep_after cfg env a)"
  by (simp_all add: sleep_after_def)

lemma retry_invocations:
  "length (filter is_invoked (snd (snd (retry_from cfg env a cb l)))) \<le> Suc (maxRetries cfg) - a"
proof (rule retry_from_induct
    [where cfg = cfg and env = env and P = "\<lambda>a l r. length (filter is_invoked (snd (snd r))) \<le> Suc (maxRetries cfg) - a"],
    goal_cases)
  case (1 a cb l)
  then show ?case by (simp split: option.splits)
next
  case (2 a l v cb')
  then show ?case by simp
next
  case (3 a l err ev res cbf rest)
  then show ?case by (auto simp: sleep_after_no_attempt)
qed

lemma retry_success:
  "fst (retry_from cfg env a cb l) = Inr v \<longrightarrow>
     (\<exists>k pre. snd (snd (retry_from cfg env a cb l)) = pre @ [Invoked k]
        \<and> operation env k = Resolved v
        \<and> (\<forall>j. Invoked j \<in> set pre \<longrightarrow> \<not> is_resolved (operation env j)))"
proof (rule retry_from_induct
    [where cfg = cfg and env = env and P = "\<lambda>a l r. fst r = Inr v \<longrightarrow>
     (\<exists>k pre. snd (snd r) = pre @ [Invoked k]
        \<and> operation env k = Resolved v
        \<and> (\<forall>j. Invoked j \<in> set pre \<longrightarrow> \<not> is_resolved (operation env j)))"],
    goal_cases)
  case (1 a cb l)
  then show ?case by (simp split: option.splits)
next
  case (2 a l v' cb')
  then show ?case by simp
next
  case (3 a l err ev res cbf rest)
  show ?case
  proof
    assume "fst (res, cbf, [ev] @ sleep_after cfg env a @ rest) = Inr v"
    then have "fst (res, cbf, rest) = Inr v" by simp
    with 3(5) obtain k pre where r: "rest = pre @ [Invoked k]"
      and o: "operation env k = Resolved v"
      and n: "\<forall>j. Invoked j \<in> set pre \<longrightarrow> \<not> is_resolved (operation env j)"
      by auto
    have "snd (snd (res, cbf, [ev] @ sleep_after cfg env a @ rest))
            = ([ev] @ sleep_after cfg env a @ pre) @ [Invoked k]"
      using r by simp
    moreover have "\<forall>j. Invoked j \<in> set ([ev] @ sleep_after cfg env a @ pre) \<longrightarrow>
        \<not> is_resolved (operation env j)"
      using n 3(2) 3(4) by (auto simp: sleep_after_no_attempt)
    ultimately show "\<exists>k pre. snd (snd (res, cbf, [ev] @ sleep_after cfg env a @ rest)) = pre @ [Invoked k]
        \<and> operation env k = Resolved v
        \<and> (\<forall>j. Invoked j \<in> set pre \<longrightarrow> \<not> is_resolved (operation env j))"
      using o by blast
  qed
qed

lemma retry_failure:
  "(\<not> a \<le> maxRetries cfg \<longrightarrow> snd (snd (retry_from cfg env a cb l)) = [])
   \<and> (fst (retry_from cfg env a cb l) = Inl f \<longrightarrow>
     (if a \<le> maxRetries cfg
      then (\<exists>err. attempt_failure cfg env (last (snd (snd (retry_from cfg env a cb l)))) = Some err
               \<and> f = RetriesExhausted (maxRetries cfg) err)
           \<and> length (filter is_attempt (snd (snd (retry_from cfg env a cb l))))
               = Suc (maxRetries cfg) - a
           \<and> (\<forall>j. Invoked j \<in> set (snd (snd (retry_from cfg env a cb l))) \<longrightarrow>
                 \<not> is_resolved (operation env j))
      else f = (case l of None \<Rightarrow> NoLastError | Some e \<Rightarrow> RetriesExhausted (maxRetries cfg) e)))"
proof (rule retry_from_induct
    [where cfg = cfg and env = env and P = "\<lambda>a l r.
     (\<not> a \<le> maxRetries cfg \<longrightarrow> snd (snd r) = [])
     \<and> (fst r = Inl f \<longrightarrow>
     (if a \<le> maxRetries cfg
      then (\<exists>err. attempt_failure cfg env (last (snd (snd r))) = Some err
               \<and> f = RetriesExhausted (maxRetries cfg) err)
           \<and> length (filter is_attempt (snd (snd r))) = Suc (maxRetries cfg) - a
           \<and> (\<forall>j. Invoked j \<in> set (snd (snd r)) \<longrightarrow> \<not> is_resolved (operation env j))
      else f = (case l of None \<Rightarrow> NoLastError | Some e \<Rightarrow> RetriesExhausted (maxRetries cfg) e)))"],
    goal_cases)
  case (1 a cb l)
  then show ?case by (auto split: option.splits)
next
  case (2 a l v' cb')
  then show ?case by simp
next
  case (3 a l err ev res cbf rest)
  have at: "is_attempt ev" using 3(2) by auto
  have inv: "Invoked j = ev \<Longrightarrow> \<not> is_resolved (operation env j)" for j
    using 3(2) 3(4) by auto
  show ?case
  proof (cases "a < maxRetries cfg")
    case True
    then have le: "Suc a \<le> maxRetries cfg" by simp
    show ?thesis
    proof (intro conjI impI)
      assume "\<not> a \<le> maxRetries cfg"
      with 3(1) show "snd (snd (res, cbf, [ev] @ sleep_after cfg env a @ rest)) = []" by simp
    next
      assume "fst (res, cbf, [ev] @ sleep_after cfg env a @ rest) = Inl f"
      then have r: "res = Inl f" by simp
      with 3(5) le obtain err' where
        e: "attempt_failure cfg env (last rest) = Some err'"
           "f = RetriesExhausted (maxRetries cfg) err'"
        and c: "length (filter is_attempt rest) = Suc (maxRetries cfg) - Suc a"
        and n: "\<forall>j. Invoked j \<in> set rest \<longrightarrow> \<not> is_resolved (operation env j)"
        by auto
      from c True have ne: "rest \<noteq> []" by auto
      have l: "last ([ev] @ sleep_after cfg env a @ rest) = last rest"
        using ne by simp
      have c': "length (filter is_attempt ([ev] @ sleep_after cfg env a @ rest))
                  = Suc (maxRetries cfg) - a"
        using c at True by (simp add: sleep_after_no_attempt)
      have n': "\<forall>j. Invoked j \<in> set ([ev] @ sleep_after cfg env a @ rest) \<longrightarrow>
                  \<not> is_resolved (operation env j)"
        using n inv by (auto simp: sleep_after_no_attempt)
      from e l c' n' 3(1)
      show "if a \<le> maxRetries cfg
        then (\<exists>err. attempt_failure cfg env
                 (last (snd (snd (res, cbf, [ev] @ sleep_after cfg env a @ rest)))) = Some err
               \<and> f = RetriesExhausted (maxRetries cfg) err)
           \<and> length (filter is_attempt (snd (snd (res, cbf, [ev] @ sleep_after cfg env a @ rest))))
                = Suc (maxRetries cfg) - a
           \<and> (\<forall>j. Invoked j \<in> set (snd (snd (res, cbf, [ev] @ sleep_after cfg env a @ rest))) \<longrightarrow>
                 \<not> is_resolved (operation env j))
        else f = (case l of None \<Rightarrow> NoLastError
                  | Some e \<Rightarrow> RetriesExhausted (maxRetries cfg) e)"
        by simp
    qed
  next
    case False
    with 3(1) have eq: "a = maxRetries cfg" and nle: "\<not> Suc a \<le> maxRetries cfg" by simp_all
    from 3(5) nle have rest: "rest = []" by simp
    show ?thesis
    proof (intro conjI impI)
      assume "\<not> a \<le> maxRetries cfg"
      with 3(1) show "snd (snd (res, cbf, [ev] @ sleep_after cfg env a @ rest)) = []" by simp
    next
      assume "fst (res, cbf, [ev] @ sleep_after cfg env a @ rest) = Inl f"
      then have "res = Inl f" by simp
      with 3(5) nle have f: "f = RetriesExhausted (maxRetries cfg) err" by simp
      from f rest False at inv 3(1) 3(3) eq
      show "if a \<le> maxRetries cfg
        then (\<exists>err. attempt_failure cfg env
                 (last (snd (snd (res, cbf, [ev] @ sleep_after cfg env a @ rest)))) = Some err
               \<and> f = RetriesExhausted (maxRetries cfg) err)
           \<and> length (filter is_attempt (snd (snd (res, cbf, [ev] @ sleep_after cfg env a @ rest))))
                = Suc (maxRetries cfg) - a
           \<and> (\<forall>j. Invoked j \<in> set (snd (snd (res, cbf, [ev] @ sleep_after cfg env a @ rest))) \<longrightarrow>
                 \<not> is_resolved (operation env j))
        else f = (case l of None \<Rightarrow> NoLastError
                  | Some e \<Rightarrow> RetriesExhausted (maxRetries cfg) e)"
        by (auto simp: sleep_after_def)
    qed
  qed
qed

lemma run_lucky:
  "executeWithRetry default_config third_time_lucky closed_breaker =
     (Inr ''data'', \<lparr>state = CLOSED, failureCount = 0, lastFailureTime = None\<rparr>,
      [Invoked 1, Slept 1000, Invoked 2, Slept 2000, Invoked 3])"
  by code_simp

lemma run_down:
  "executeWithRetry default_config always_down closed_breaker =
     (Inl (RetriesExhausted 3 (OperationError ''network timeout'')),
      \<lparr>state = CLOSED, failureCount = 3, lastFailureTime = Some 0\<rparr>,
      [Invoked 1, Slept 1000, Invoked 2, Slept 2000, Invoked 3])"
  by code_simp

subsection \<open>The commission service\<close>

lemma calculated_status:
  "CommissionService_calculateCommission h clk getStreamerById streamerId amount app = Inr c
      \<Longrightarrow> field c ''status'' = Str ''pending''"
proof -
  assume a: "CommissionService_calculateCommission h clk getStreamerById streamerId amount app = Inr c"
  show ?thesis
  proof (cases "getStreamerById streamerId")
    case (Inl e)
    with a show ?thesis by (simp add: CommissionService_calculateCommission_def)
  next
    case (Inr found)
    show ?thesis
    proof (cases found)
      case None
      with a Inr show ?thesis by (simp add: CommissionService_calculateCommission_def)
    next
      case (Some streamer)
      with a Inr have "field c ''status'' = field (map_of [(''status'', Str ''pending'')]) ''status''"
        by (auto simp: CommissionService_calculateCommission_def Let_def field_def)
      then show ?thesis by (simp add: field_def)
    qed
  qed
qed

lemma stored_status:
  "list_all (\<lambda>d. field d ''status'' = Str ''pending'')
     (snd (firestore_createCommission clk addDoc commissionData))"
  by (cases "addDoc (commission_document clk commissionData)")
     (simp_all add: firestore_createCommission_def commission_document_def field_def)

lemma returned_data:
  "fst (firestore_createCommission clk addDoc commissionData) = CreateSucceeded new_id d
     \<Longrightarrow> d = commissionData"
  by (cases "addDoc (commission_document clk commissionData)")
     (simp_all add: firestore_createCommission_def)

lemma update_data_status:
  "field (update_data clk new_status additionalData) ''status'' =
     (case additionalData ''status'' of None \<Rightarrow> new_status | Some v \<Rightarrow> v)"
  by (simp add: update_data_def field_def map_add_def split: option.splits)

lemma found_result:
  "\<exists>c. CommissionService_calculateCommission decimal_host noon found_streamer (Str ''s1'')
          (Number (Fin 200)) (Str ''yameet'') = Inr c"
proof -
  have "found_streamer (Str ''s1'') = Inr (Some [''name'' \<mapsto> Str ''Ana'', ''level'' \<mapsto> Number (Fin 2)])"
    by (simp add: found_streamer_def)
  then show ?thesis
    unfolding CommissionService_calculateCommission_def by (simp only: sum.case option.case Let_def) blast
qed

subsection \<open>Multipliers and substrings\<close>

lemma level_keys:
  "num_to_string h 1 = ''1''" "num_to_string h 2 = ''2''" "num_to_string h 3 = ''3''"
  "num_to_string h 4 = ''4''" "num_to_string h 5 = ''5''"
  by code_simp+

lemma levelMultipliers_levels:
  "levelMultipliers h (Number (Fin 1)) = Number (Fin (5 / 100))"
  "levelMultipliers h (Number (Fin 2)) = Number (Fin (10 / 100))"
  "levelMultipliers h (Number (Fin 3)) = Number (Fin (15 / 100))"
  "levelMultipliers h (Number (Fin 4)) = Number (Fin (20 / 100))"
  "levelMultipliers h (Number (Fin 5)) = Number (Fin (25 / 100))"
  by (simp_all add: levelMultipliers_def level_keys Let_def)

lemma levelMultipliers_valid:
  assumes "lv \<in> set validLevels"
  shows "\<exists>m. levelMultipliers h lv = Number (Fin m)"
proof -
  from assms have "lv = Number (Fin 1) \<or> lv = Number (Fin 2) \<or> lv = Number (Fin 3)
      \<or> lv = Number (Fin 4) \<or> lv = Number (Fin 5)"
    by (simp add: validLevels_def)
  then show ?thesis
    using levelMultipliers_levels [of h] by blast
qed

lemma valid_earnings_finite:
  assumes "earnings_errors v = []"
  shows "\<exists>e. v = Number (Fin e) \<and> 0 \<le> e \<and> e \<le> 1000000"
proof (cases v)
  case (Number n)
  with assms show ?thesis by (cases n) (auto split: if_splits)
qed (use assms in simp_all)

lemma starts_with_iff: "starts_with s p \<longleftrightarrow> (\<exists>r. s = p @ r)"
  by (induction s p rule: starts_with.induct) auto

lemma includes_str_iff: "includes_str s sub \<longleftrightarrow> (\<exists>a b. s = a @ sub @ b)"
proof (induction s)
  case Nil
  then show ?case by simp
next
  case (Cons c cs)
  show ?case
  proof
    assume "includes_str (c # cs) sub"
    then consider "starts_with (c # cs) sub" | "includes_str cs sub" by auto
    then show "\<exists>a b. c # cs = a @ sub @ b"
    proof cases
      case 1
      then obtain r where "c # cs = sub @ r" using starts_with_iff by blast
      then have "c # cs = [] @ sub @ r" by simp
      then show ?thesis by blast
    next
      case 2
      with Cons.IH obtain a b where "cs = a @ sub @ b" by blast
      then have "c # cs = (c # a) @ sub @ b" by simp
      then show ?thesis by blast
    qed
  next
    assume "\<exists>a b. c # cs = a @ sub @ b"
    then obtain a b where ab: "c # cs = a @ sub @ b" by blast
    show "includes_str (c # cs) sub"
    proof (cases a)
      case Nil
      with ab have "starts_with (c # cs) sub" using starts_with_iff by auto
      then show ?thesis by simp
    next
      case (Cons x xs)
      with ab have "cs = xs @ sub @ b" by simp
      with Cons.IH have "includes_str cs sub" by blast
      then show ?thesis by simp
    qed
  qed
qed

section \<open>The validators of the API route\<close>

text \<open>
  What the route's validators flag when a call is not served from the cache:
  \<^verbatim>\<open>validateEarnings\<close> reports an error exactly for earnings that are not a number, are
  NaN, are negative or exceed 1,000,000; \<^verbatim>\<open>validateStreamerData\<close> reports the id error
  exactly for an id that is missing, not a string, empty after trimming or outside
  \<^verbatim>\<open>[a-zA-Z0-9_-]\<close>; and in every result a validator returns, \<^verbatim>\<open>isValid\<close> is true exactly
  when the error list is empty.
\<close>

lemma validators_flag_malformed:
  "(errors_e (validateEarnings e) \<noteq> [] \<longleftrightarrow> earnings_malformed e)
   \<and> (isValid_e (validateEarnings e) \<longleftrightarrow> errors_e (validateEarnings e) = [])
   \<and> (\<not> cache_hit h now s c \<longrightarrow>
        (IdInvalid \<in> set (errors (fst (validateStreamerData h now now' s c)))
           \<longleftrightarrow> id_malformed (streamer_id s)))
   \<and> list_all (\<lambda>v. isValid v \<longleftrightarrow> errors v = []) (fst (run_calls h cs Map.empty))"
proof -
  have "list_all (\<lambda>v. isValid v \<longleftrightarrow> errors v = []) (fst (run_calls h cs Map.empty))"
    using run_keeps [of "\<lambda>v. isValid v \<longleftrightarrow> errors v = []" h Map.empty cs]
      uncached_isValid cache_all_empty by blast
  then show ?thesis
    by (simp add: validateEarnings_def earnings_errors_iff miss_uncached uncached_id)
qed

text \<open>
  C5. The cache key is the text \<^verbatim>\<open>validation_${id}_${earnings}\<close>, and a missing id prints
  as "undefined". After a call with the valid id "undefined" and earnings 100, a call with
  no id and earnings 100 inside the expiry window is served the cached result: no error is
  reported for the missing id and \<^verbatim>\<open>isValid\<close> is true.
\<close>

theorem cache_serves_missing_id:
  "streamer_id no_id = Undefined
   \<and> id_malformed (streamer_id no_id)
   \<and> map errors (fst (run_calls decimal_host
        [Validate 0 0 named_undefined, Validate 1 1 no_id] Map.empty)) = [[], []]
   \<and> map isValid (fst (run_calls decimal_host
        [Validate 0 0 named_undefined, Validate 1 1 no_id] Map.empty)) = [True, True]"
  by code_simp



section \<open>Levels after validation\<close>

text \<open>
  C3, as the claim states it, fails: commission-validator.js answers a missing level with
  the error "Nivel de streamer es requerido" and leaves the level as it was.
\<close>

theorem missing_level_kept_js:
  "level (correctedData (validateStreamerData_js decimal_host no_level)) = Undefined
   \<and> \<not> level_1_to_5 (level (correctedData (validateStreamerData_js decimal_host no_level)))
   \<and> errors (validateStreamerData_js decimal_host no_level) = [LevelRequired]"
  by (simp add: validateStreamerData_js_def no_level_def Let_def js_lt_def)

text \<open>
  C3, amended. In every result that \<^verbatim>\<open>CommissionValidator.validateStreamerData\<close> of
  route.ts returns, over any sequence of calls on a validator whose cache starts empty,
  \<^verbatim>\<open>correctedData.level\<close> is an integer from 1 to 5. \<^verbatim>\<open>validateStreamerData\<close> of
  commission-validator.js returns such a level whenever the input level is truthy, and so
  whenever the result is valid; for a falsy level, a missing one included, it reports
  "Nivel de streamer es requerido", the result is not valid and the level is left as it
  was. \<^verbatim>\<open>StreamerValidator.validateStreamer\<close> of streamer-validator.js sets the level
  to 1 when the input level is falsy, below 1 or above 5, and keeps an integer level from
  1 to 5.
\<close>

theorem levels_after_validation:
  "list_all (\<lambda>v. level_1_to_5 (level (correctedData v))) (fst (run_calls h cs Map.empty))
   \<and> (truthy (level s) \<longrightarrow>
        level_1_to_5 (level (correctedData (validateStreamerData_js h s))))
   \<and> (isValid (validateStreamerData_js h s) \<longrightarrow>
        level_1_to_5 (level (correctedData (validateStreamerData_js h s))))
   \<and> (\<not> truthy (level s) \<longrightarrow>
        LevelRequired \<in> set (errors (validateStreamerData_js h s))
        \<and> \<not> isValid (validateStreamerData_js h s)
        \<and> level (correctedData (validateStreamerData_js h s)) = level s)
   \<and> (\<not> truthy lv \<or> js_lt h lv 1 \<or> js_gt h lv 5 \<longrightarrow>
        validateStreamer_level h lv = (True, Number (Fin 1)))
   \<and> (level_1_to_5 lv \<longrightarrow> validateStreamer_level h lv = (False, lv))"
proof -
  have a: "list_all (\<lambda>v. level_1_to_5 (level (correctedData v))) (fst (run_calls h cs Map.empty))"
    using run_keeps [of "\<lambda>v. level_1_to_5 (level (correctedData v))" h Map.empty cs]
      uncached_level valid_iff_1_to_5 cache_all_empty by blast
  have b: "truthy (level s) \<Longrightarrow> level_1_to_5 (level (correctedData (validateStreamerData_js h s)))"
    using suggest_valid [of h "earnings s"]
    by (auto simp: validateStreamerData_js_def Let_def valid_iff_1_to_5)
  have c: "isValid (validateStreamerData_js h s) \<Longrightarrow> truthy (level s)"
    by (auto simp: validateStreamerData_js_def Let_def split: if_splits)
  have d: "level_1_to_5 lv \<Longrightarrow> validateStreamer_level h lv = (False, lv)"
    using valid_iff_1_to_5 [of lv]
    by (auto simp: validateStreamer_level_def validLevels_def js_lt_def js_gt_def)
  have e: "\<not> truthy (level s) \<Longrightarrow>
        LevelRequired \<in> set (errors (validateStreamerData_js h s))
        \<and> \<not> isValid (validateStreamerData_js h s)
        \<and> level (correctedData (validateStreamerData_js h s)) = level s"
    by (simp add: validateStreamerData_js_def Let_def)
  have f: "\<not> truthy lv \<or> js_lt h lv 1 \<or> js_gt h lv 5 \<Longrightarrow>
        validateStreamer_level h lv = (True, Number (Fin 1))"
    by (auto simp: validateStreamer_level_def)
  from a b c d e f show ?thesis by blast
qed

theorem levels_after_validation_witness:
  "list_all (\<lambda>v. level_1_to_5 (level (correctedData v)))
     (fst (run_calls decimal_host [Validate 0 0 level_seven, Validate 1 1 no_level] Map.empty))
   \<and> truthy (level level_seven)
   \<and> isValid (validateStreamerData_js decimal_host level_seven)
   \<and> level_1_to_5 (level (correctedData (validateStreamerData_js decimal_host level_seven)))
   \<and> \<not> truthy (level no_level)
   \<and> LevelRequired \<in> set (errors (validateStreamerData_js decimal_host no_level))
   \<and> \<not> isValid (validateStreamerData_js decimal_host no_level)
   \<and> level (correctedData (validateStreamerData_js decimal_host no_level)) = level no_level
   \<and> js_gt decimal_host (Number (Fin 9)) 5
   \<and> validateStreamer_level decimal_host (Number (Fin 9)) = (True, Number (Fin 1))
   \<and> level_1_to_5 (Number (Fin 2))
   \<and> validateStreamer_level decimal_host (Number (Fin 2)) = (False, Number (Fin 2))"
proof -
  have t: "truthy (level level_seven)" by (simp add: level_seven_def)
  have v: "isValid (validateStreamerData_js decimal_host level_seven)" by code_simp
  have n: "\<not> truthy (level no_level)" by (simp add: no_level_def)
  have g: "js_gt decimal_host (Number (Fin 9)) 5" by (simp add: js_gt_def)
  have l: "level_1_to_5 (Number (Fin 2))" by simp
  from levels_after_validation
         [of decimal_host "[Validate 0 0 level_seven, Validate 1 1 no_level]" level_seven
            "Number (Fin 9)"]
       levels_after_validation [of decimal_host "[]" no_level "Number (Fin 2)"]
       t v n g l
  show ?thesis by simp
qed

text \<open>
  The level check of \<^verbatim>\<open>StreamerValidator.validateStreamer\<close> in streamer-validator.js is
  a range check only: a fractional level between 1 and 5 and a string that reads as NaN
  pass it unchanged.
\<close>

lemma validateStreamer_level_range_only:
  "validateStreamer_level decimal_host (Number (Fin (5 / 2))) = (False, Number (Fin (5 / 2)))
   \<and> validateStreamer_level decimal_host (Str ''abc'') = (False, Str ''abc'')"
  by code_simp

section \<open>The proxy route\<close>




text \<open>
  C4. Each handler returns a response in every case. When its \<^verbatim>\<open>try\<close> block throws an
  error, the response has \<^verbatim>\<open>success: false\<close>, the error's message in \<^verbatim>\<open>error\<close> and status
  500; when nothing is thrown it has \<^verbatim>\<open>success: true\<close> and the data. In particular a
  response of the Apps Script that is not \<^verbatim>\<open>ok\<close> becomes the error
  "HTTP error! status: " followed by the status.
\<close>

theorem handlers_catch_errors:
  "(GET_try g = Inl e \<longrightarrow>
      resp_success (GET g) = False \<and> resp_error (GET g) = error_message e
      \<and> resp_status (GET g) = 500)
   \<and> (GET_try g = Inr d \<longrightarrow> resp_success (GET g) = True \<and> resp_data (GET g) = Some d)
   \<and> (POST_try p = Inl e' \<longrightarrow>
      resp_success (POST p) = False \<and> resp_error (POST p) = error_message e'
      \<and> resp_status (POST p) = 500)
   \<and> (POST_try p = Inr d' \<longrightarrow> resp_success (POST p) = True \<and> resp_data (POST p) = Some d')
   \<and> (post_request_url p = Inr ps \<and> request_json p = Inr b
        \<and> post_fetch p (POST_fetch_url ps) b = Inr r \<and> \<not> ok r \<longrightarrow>
      resp_success (POST p) = False
      \<and> resp_error (POST p) = Some (''HTTP error! status: '' @ nat_to_string (status r))
      \<and> resp_status (POST p) = 500)"
  by (simp add: GET_def POST_def POST_try_def POST_fetch_url_def http_error_def Let_def)

theorem handlers_catch_errors_witness:
  "GET_try failing_get = Inl network_down
   \<and> resp_success (GET failing_get) = False
   \<and> resp_error (GET failing_get) = Some ''fetch failed''
   \<and> resp_status (GET failing_get) = 500
   \<and> GET_try working_get = Inr ''[]''
   \<and> resp_success (GET working_get) = True
   \<and> POST_try refused_post = Inl (http_error 503)
   \<and> resp_success (POST refused_post) = False
   \<and> resp_error (POST refused_post) = Some ''HTTP error! status: 503''
   \<and> resp_status (POST refused_post) = 500
   \<and> POST_try working_post = Inr ''done''
   \<and> resp_success (POST working_post) = True"
proof -
  have m: "error_message (http_error 503) = Some ''HTTP error! status: 503''"
    by code_simp
  have n: "error_message network_down = Some ''fetch failed''"
    by (simp add: network_down_def)
  from handlers_catch_errors
         [of failing_get network_down "[]" refused_post "http_error 503" "[]" streamers_query
            "''{}''" "\<lparr>ok = False, status = 503, json = Inr ''busy''\<rparr>"]
       handlers_catch_errors
         [of working_get network_down "''[]''" working_post network_down "''done''"
            streamers_query "''{}''" "\<lparr>ok = False, status = 503, json = Inr ''busy''\<rparr>"]
       GET_try_failing GET_try_working POST_try_refused POST_try_working m n
  show ?thesis by simp
qed

section \<open>Bounded retries\<close>

text \<open>
  C7. \<^verbatim>\<open>executeWithRetry\<close> invokes the operation at most \<^verbatim>\<open>maxRetries\<close> times, 3 by
  default. An attempt that is not the last event of the call is followed by a sleep. When
  the call returns a value, its last event is the invocation that resolved with that
  value, and no earlier invocation resolved. When it throws and \<^verbatim>\<open>maxRetries\<close> is
  positive, it made \<^verbatim>\<open>maxRetries\<close> attempts, none resolved, and the error is "Operacion
  fallo despues de \<^verbatim>\<open>maxRetries\<close> intentos. Ultimo error: " with the message of the error
  caught in the last attempt.
\<close>

theorem executeWithRetry_bounded:
  "maxRetries default_config = 3
   \<and> length (filter is_invoked (snd (snd (executeWithRetry cfg env cb)))) \<le> maxRetries cfg
   \<and> sleeps_between (snd (snd (executeWithRetry cfg env cb)))
   \<and> (fst (executeWithRetry cfg env cb) = Inr v \<longrightarrow>
        (\<exists>k pre. snd (snd (executeWithRetry cfg env cb)) = pre @ [Invoked k]
           \<and> operation env k = Resolved v
           \<and> (\<forall>j. Invoked j \<in> set pre \<longrightarrow> \<not> is_resolved (operation env j))))
   \<and> (fst (executeWithRetry cfg env cb) = Inl f \<and> 0 < maxRetries cfg \<longrightarrow>
        (\<exists>err. attempt_failure cfg env (last (snd (snd (executeWithRetry cfg env cb)))) = Some err
             \<and> f = RetriesExhausted (maxRetries cfg) err)
        \<and> length (filter is_attempt (snd (snd (executeWithRetry cfg env cb)))) = maxRetries cfg
        \<and> (\<forall>j. Invoked j \<in> set (snd (snd (executeWithRetry cfg env cb))) \<longrightarrow>
              \<not> is_resolved (operation env j)))"
proof -
  have 1: "length (filter is_invoked (snd (snd (executeWithRetry cfg env cb)))) \<le> maxRetries cfg"
    using retry_invocations [of cfg env 1 cb None] by (simp add: executeWithRetry_def)
  have 2: "sleeps_between (snd (snd (executeWithRetry cfg env cb)))"
    using retry_structure [of cfg env 1 cb None] by (simp add: executeWithRetry_def)
  have 3: "fst (executeWithRetry cfg env cb) = Inr v \<longrightarrow>
        (\<exists>k pre. snd (snd (executeWithRetry cfg env cb)) = pre @ [Invoked k]
           \<and> operation env k = Resolved v
           \<and> (\<forall>j. Invoked j \<in> set pre \<longrightarrow> \<not> is_resolved (operation env j)))"
    using retry_success [of cfg env 1 cb None v] by (simp only: executeWithRetry_def)
  have 4: "fst (executeWithRetry cfg env cb) = Inl f \<and> 0 < maxRetries cfg \<longrightarrow>
        (\<exists>err. attempt_failure cfg env (last (snd (snd (executeWithRetry cfg env cb)))) = Some err
             \<and> f = RetriesExhausted (maxRetries cfg) err)
        \<and> length (filter is_attempt (snd (snd (executeWithRetry cfg env cb)))) = maxRetries cfg
        \<and> (\<forall>j. Invoked j \<in> set (snd (snd (executeWithRetry cfg env cb))) \<longrightarrow>
              \<not> is_resolved (operation env j))"
    using retry_failure [of 1 cfg env cb None f] by (auto simp: executeWithRetry_def)
  have 0: "maxRetries default_config = 3" by (simp add: default_config_def)
  from 0 1 2 3 4 show ?thesis by blast
qed

theorem executeWithRetry_bounded_witness:
  "fst (executeWithRetry default_config third_time_lucky closed_breaker) = Inr ''data''
   \<and> snd (snd (executeWithRetry default_config third_time_lucky closed_breaker)) =
       [Invoked 1, Slept 1000, Invoked 2, Slept 2000] @ [Invoked 3]
   \<and> operation third_time_lucky 3 = Resolved ''data''
   \<and> fst (executeWithRetry default_config always_down closed_breaker) =
       Inl (RetriesExhausted 3 (OperationError ''network timeout''))
   \<and> 0 < maxRetries default_config
   \<and> attempt_failure default_config always_down
        (last (snd (snd (executeWithRetry default_config always_down closed_breaker)))) =
       Some (OperationError ''network timeout'')
   \<and> length (filter is_attempt
        (snd (snd (executeWithRetry default_config always_down closed_breaker)))) = 3
   \<and> length (filter is_invoked
        (snd (snd (executeWithRetry default_config third_time_lucky closed_breaker)))) \<le> 3"
proof -
  have o: "operation third_time_lucky 3 = Resolved ''data''"
    by (simp add: third_time_lucky_def)
  have m: "maxRetries default_config = 3" by (simp add: default_config_def)
  from executeWithRetry_bounded
         [of default_config third_time_lucky closed_breaker "''data''"
            "RetriesExhausted 3 (OperationError ''network timeout'')"]
       executeWithRetry_bounded
         [of default_config always_down closed_breaker "''data''"
            "RetriesExhausted 3 (OperationError ''network timeout'')"]
       o m
  show ?thesis by (simp add: run_lucky run_down)
qed

section \<open>Commission statuses\<close>

text \<open>
  C8, as the claim states it, fails. A status outside pending, paid and failed is taken
  as it comes: \<^verbatim>\<open>createCommission\<close> returns the caller's data with its status "approved",
  and \<^verbatim>\<open>updateCommissionStatus\<close> puts the status "approved" into the update, which an
  \<^verbatim>\<open>updateCommission\<close> that merges updates writes into the commission.
\<close>

theorem unchecked_statuses:
  "fst (CommissionService_createCommission noon stored_as approved_commission) =
     CreateSucceeded ''doc1'' approved_commission
   \<and> field approved_commission ''status'' = Str ''approved''
   \<and> Str ''approved'' \<notin> set commission_statuses
   \<and> field (update_data noon (Str ''approved'') Map.empty) ''status'' = Str ''approved''
   \<and> (case updateCommissionStatus (Some merging_update) noon (Str ''c1'') (Str ''approved'')
              Map.empty of
         Inl e \<Rightarrow> Undefined
       | Inr c \<Rightarrow> field c ''status'') = Str ''approved''"
proof -
  have 1: "fst (CommissionService_createCommission noon stored_as approved_commission) =
     CreateSucceeded ''doc1'' approved_commission"
    by (simp add: CommissionService_createCommission_def firestore_createCommission_def
        stored_as_def)
  have 2: "field approved_commission ''status'' = Str ''approved''"
    by (simp add: field_def approved_commission_def)
  have 3: "Str ''approved'' \<notin> set commission_statuses"
    by (simp add: commission_statuses_def)
  have 4: "field (update_data noon (Str ''approved'') Map.empty) ''status'' = Str ''approved''"
    by (simp add: update_data_status)
  have 5: "(case updateCommissionStatus (Some merging_update) noon (Str ''c1'') (Str ''approved'')
              Map.empty of
         Inl e \<Rightarrow> Undefined
       | Inr c \<Rightarrow> field c ''status'') = Str ''approved''"
    by (simp add: updateCommissionStatus_def merging_update_def update_data_def field_def
        map_add_def)
  from 1 2 3 4 5 show ?thesis by blast
qed

text \<open>
  C8, amended. \<^verbatim>\<open>CommissionService.calculateCommission\<close> creates every commission with
  status "pending", and every document \<^verbatim>\<open>FirestoreService.createCommission\<close> adds to the
  collection has status "pending". No other status is checked against pending, paid and
  failed: \<^verbatim>\<open>createCommission\<close>, of the Firestore service and of the commission service,
  returns the data as the caller gave it; the update \<^verbatim>\<open>updateCommissionStatus\<close> builds
  carries its status argument, or the status of \<^verbatim>\<open>additionalData\<close> when that has one, and
  is handed unchanged to \<^verbatim>\<open>firestore.updateCommission\<close>, whose result is returned; with
  the Firestore service of firestore.js, which has no \<^verbatim>\<open>updateCommission\<close>, the call
  throws a TypeError.
\<close>

theorem commission_status_written:
  "(CommissionService_calculateCommission h clk getStreamerById streamerId amount app = Inr c \<longrightarrow>
      field c ''status'' = Str ''pending'')
   \<and> list_all (\<lambda>d. field d ''status'' = Str ''pending'')
        (snd (firestore_createCommission clk' addDoc commissionData))
   \<and> (fst (firestore_createCommission clk' addDoc commissionData) = CreateSucceeded new_id d \<longrightarrow>
        d = commissionData)
   \<and> CommissionService_createCommission clk' addDoc commissionData =
        firestore_createCommission clk' addDoc commissionData
   \<and> field (update_data clk'' new_status additionalData) ''status'' =
        (case additionalData ''status'' of None \<Rightarrow> new_status | Some v \<Rightarrow> v)
   \<and> updateCommissionStatus (Some update) clk'' commissionId new_status additionalData =
        (case update commissionId (update_data clk'' new_status additionalData) of
           Inl e \<Rightarrow> Inl (FirestoreError e)
         | Inr updated \<Rightarrow> Inr updated)
   \<and> updateCommissionStatus firestore_updateCommission clk'' commissionId new_status
        additionalData = Inl (NotAFunction ''updateCommission'')"
proof -
  have 6: "updateCommissionStatus (Some update) clk'' commissionId new_status additionalData =
        (case update commissionId (update_data clk'' new_status additionalData) of
           Inl e \<Rightarrow> Inl (FirestoreError e)
         | Inr updated \<Rightarrow> Inr updated)"
    by (simp add: updateCommissionStatus_def)
  have 7: "updateCommissionStatus firestore_updateCommission clk'' commissionId new_status
        additionalData = Inl (NotAFunction ''updateCommission'')"
    by (simp add: updateCommissionStatus_def firestore_updateCommission_def)
  have 4: "CommissionService_createCommission clk' addDoc commissionData =
        firestore_createCommission clk' addDoc commissionData"
    by (simp add: CommissionService_createCommission_def)
  from calculated_status [of h clk getStreamerById streamerId amount app c]
       stored_status [of clk' addDoc commissionData]
       returned_data [of clk' addDoc commissionData new_id d]
       update_data_status [of clk'' new_status additionalData] 4 6 7
  show ?thesis by blast
qed

theorem commission_status_written_witness:
  "(\<exists>c. CommissionService_calculateCommission decimal_host noon found_streamer (Str ''s1'')
          (Number (Fin 200)) (Str ''yameet'') = Inr c
        \<and> field c ''status'' = Str ''pending'')
   \<and> firestore_createCommission noon stored_as approved_commission =
       (CreateSucceeded ''doc1'' approved_commission,
        [commission_document noon approved_commission])
   \<and> field (commission_document noon approved_commission) ''status'' = Str ''pending''"
proof -
  obtain c where c: "CommissionService_calculateCommission decimal_host noon found_streamer
      (Str ''s1'') (Number (Fin 200)) (Str ''yameet'') = Inr c"
    using found_result by blast
  have s: "firestore_createCommission noon stored_as approved_commission =
       (CreateSucceeded ''doc1'' approved_commission,
        [commission_document noon approved_commission])"
    by (simp add: firestore_createCommission_def stored_as_def)
  from commission_status_written
         [of decimal_host noon found_streamer "Str ''s1''" "Number (Fin 200)" "Str ''yameet''" c
            noon stored_as approved_commission "''doc1''" approved_commission]
       c s
  show ?thesis by auto
qed

section \<open>Error classification\<close>

text \<open>
  C6. \<^verbatim>\<open>classifyError\<close> tags an error by the substrings of its lowercased message, in a
  fixed order: "network", "connection" or "timeout" give NETWORK_ERROR; otherwise "api",
  "http", "500" or "404" give API_ERROR; otherwise "validation" or "invalid" give
  VALIDATION_ERROR; otherwise "auth" or "unauthorized" give AUTH_ERROR; otherwise
  UNKNOWN_ERROR. Two errors with the same message get the same tag, whatever their other
  properties.
\<close>

theorem classifyError_by_message:
  "classifyError e = tag_of_text (lowered_message e)
   \<and> (error_message e1 = error_message e2 \<longrightarrow> classifyError e1 = classifyError e2)"
  by (simp add: classifyError_def tag_of_text_def tag_table_def lowered_message_def Let_def)

theorem classifyError_by_message_witness:
  "error_message timeout_error = error_message timeout_type_error
   \<and> error_name timeout_error \<noteq> error_name timeout_type_error
   \<and> classifyError timeout_error = classifyError timeout_type_error
   \<and> classifyError timeout_error = NETWORK_ERROR
   \<and> tag_of_text (lowered_message timeout_error) = NETWORK_ERROR"
proof -
  have m: "error_message timeout_error = error_message timeout_type_error"
    by (simp add: timeout_error_def timeout_type_error_def)
  have n: "error_name timeout_error \<noteq> error_name timeout_type_error"
    by (simp add: timeout_error_def timeout_type_error_def)
  have c: "classifyError timeout_error = NETWORK_ERROR" by code_simp
  from classifyError_by_message [of timeout_error timeout_error timeout_type_error] m n c
  show ?thesis by simp
qed

section \<open>Commission calculation in commission-validator.js\<close>

text \<open>
  C10. In commission-validator.js an earnings value of 0 is rejected. Whenever
  \<^verbatim>\<open>earnings\<close> is falsy (0 included) or negative, \<^verbatim>\<open>validateStreamerData\<close> pushes
  "Ganancias deben ser un numero positivo", the result is not valid, and
  \<^verbatim>\<open>calculateCommission\<close> returns \<^verbatim>\<open>success: false\<close> with \<^verbatim>\<open>commission: 0\<close>.
\<close>

theorem zero_earnings_rejected_js:
  assumes "\<not> truthy (earnings s) \<or> js_lt h (earnings s) 0"
  shows "EarningsNotPositive \<in> set (errors (validateStreamerData_js h s))
       \<and> \<not> isValid (validateStreamerData_js h s)
       \<and> \<not> success (calculateCommission_js h s)
       \<and> commission (calculateCommission_js h s) = Number (Fin 0)"
  using assms
  by (auto simp: validateStreamerData_js_def calculateCommission_js_def Let_def)

theorem zero_earnings_rejected_js_witness:
  "earnings zero_earner = Number (Fin 0)
   \<and> EarningsNotPositive \<in> set (errors (validateStreamerData_js decimal_host zero_earner))
   \<and> \<not> isValid (validateStreamerData_js decimal_host zero_earner)
   \<and> \<not> success (calculateCommission_js decimal_host zero_earner)
   \<and> commission (calculateCommission_js decimal_host zero_earner) = Number (Fin 0)"
  using zero_earnings_rejected_js [of zero_earner decimal_host]
  by (simp add: zero_earner_def)

text \<open>
  The route's validator rounds. On a call not served from the cache with a valid result,
  the earnings are a number from 0 to 1,000,000, the level has a multiplier, and the
  commission is \<^verbatim>\<open>Math.round(earnings * multiplier * 100) / 100\<close>, here with the
  product and the rounding taken in exact arithmetic.
\<close>

lemma route_commission_rounded:
  assumes miss: "\<not> cache_hit h now s c" and ok: "isValid (validate_uncached h s)"
  shows "\<exists>e m. earnings s = Number (Fin e) \<and> 0 \<le> e \<and> e \<le> 1000000
           \<and> levelMultipliers h (level (correctedData (validate_uncached h s))) = Number (Fin m)
           \<and> success (fst (calculateCommission h now now' s c))
           \<and> commission (fst (calculateCommission h now now' s c)) =
               Number (Fin (of_int \<lfloor>e * m * 100 + 1 / 2\<rfloor> / 100))"
proof -
  from ok have "earnings_errors (earnings s) = []"
    by (simp add: validate_uncached_def Let_def validateEarnings_def split: if_splits)
  then obtain e where e: "earnings s = Number (Fin e)" "0 \<le> e" "e \<le> 1000000"
    using valid_earnings_finite by blast
  obtain m where m: "levelMultipliers h (level (correctedData (validate_uncached h s))) = Number (Fin m)"
    using levelMultipliers_valid [OF uncached_level] by blast
  have d: "earnings (correctedData (validate_uncached h s)) = earnings s"
    by (simp add: validate_uncached_def Let_def)
  have v: "validateStreamerData h now now' s c =
             (validate_uncached h s, snd (validateStreamerData h now now' s c))"
    using miss_uncached [OF miss, of now'] by (metis prod.collapse)
  have "calculateCommission h now now' s c =
          (Succeeded (Number (Fin (of_int \<lfloor>e * m * 100 + 1 / 2\<rfloor> / 100)))
             (level (correctedData (validate_uncached h s))) (Number (Fin m)) (Number (Fin e))
             (warnings (validate_uncached h s)),
           snd (validateStreamerData h now now' s c))"
    unfolding calculateCommission_def
    by (subst v) (simp add: ok m d e calculateCommissionAmount_def Let_def)
  with e m show ?thesis by simp
qed

text \<open>
  C1. commission-validator.js returns the product \<^verbatim>\<open>baseEarnings * multiplier\<close> as it
  is. For a level 5 streamer with earnings 0.125 the commission is 0.03125, while the
  rounding of the route's validator, \<^verbatim>\<open>Math.round(earnings * multiplier * 100) / 100\<close>,
  gives 0.03. In binary floating point the product 0.03125 is exact as well, and the
  rounded value is the double nearest to 0.03.
\<close>

theorem calculateCommission_js_unrounded:
  "calculateCommission_js decimal_host eighth_earner =
     Succeeded (Number (Fin (1 / 32))) (Number (Fin 5)) (Number (Fin (1 / 4)))
       (Number (Fin (1 / 8))) []
   \<and> calculateCommissionAmount (Fin (1 / 8)) (Fin (1 / 4)) = Fin (3 / 100)"
  by code_simp

end
